theory Spec2Isabelle
  imports Main "HOL-Library.Word"
begin

section \<open>Character stream of the SGF parser (parser.go)\<close>

text \<open>
  A rune is Go's \<open>int32\<close> code point.  The buffered reader is modelled by the finite
  list of events that \<open>ReadRune\<close> still has to deliver: a decoded rune or a read
  error; once the list is exhausted every further call returns \<open>io.EOF\<close>.
\<close>

type_synonym rune = int

datatype error =
    EOF
  | ReadError string
  | ExpectedOpenParen
  | UnexpectedChar rune
  | ExpectedSemicolon
  | PropertyError error
  | ExpectedBracket
  | ParseFailed error
  | EmptySGF
  | NoGamesFound
  | ConvertFailed error

record SGFParser =
  reader :: "(error + rune) list"
  char :: rune
  hasChar :: bool

definition rune_of :: "char \<Rightarrow> rune" where
  "rune_of c = int (of_char c)"

definition NewSGFParser :: "(error + rune) list \<Rightarrow> SGFParser" where
  "NewSGFParser r = \<lparr>reader = r, char = 0, hasChar = False\<rparr>"

definition readChar :: "SGFParser \<Rightarrow> (error + rune) \<times> SGFParser" where
  "readChar p =
     (if hasChar p then (Inr (char p), p\<lparr>hasChar := False\<rparr>)
      else (case reader p of
              [] \<Rightarrow> (Inl EOF, p)
            | Inl e # rest \<Rightarrow> (Inl e, p\<lparr>reader := rest\<rparr>)
            | Inr ch # rest \<Rightarrow> (Inr ch, p\<lparr>reader := rest, char := ch\<rparr>)))"

definition peekChar :: "SGFParser \<Rightarrow> (error + rune) \<times> SGFParser" where
  "peekChar p =
     (if hasChar p then (Inr (char p), p)
      else (case readChar p of
              (Inl e, p') \<Rightarrow> (Inl e, p')
            | (Inr ch, p') \<Rightarrow> (Inr ch, p'\<lparr>char := ch, hasChar := True\<rparr>)))"

definition unreadChar :: "SGFParser \<Rightarrow> SGFParser" where
  "unreadChar p = p\<lparr>hasChar := True\<rparr>"

text \<open>Number of runes the parser can still deliver, the pushed-back one included.\<close>

definition pending :: "SGFParser \<Rightarrow> nat" where
  "pending p = length (reader p) + (if hasChar p then 1 else 0)"

definition isBlank :: "rune \<Rightarrow> bool" where
  "isBlank ch \<longleftrightarrow> ch = 32 \<or> ch = 9 \<or> ch = 10 \<or> ch = 13"

lemma readChar_pending_le: "pending (snd (readChar p)) \<le> pending p"
  by (auto simp: readChar_def pending_def split: list.splits sum.splits)

lemma readChar_pending_less:
  "readChar p = (Inr ch, p') \<Longrightarrow> pending p' < pending p"
  by (auto simp: readChar_def pending_def split: list.splits sum.splits if_splits)

lemma peekChar_pending_le: "pending (snd (peekChar p)) \<le> pending p"
  by (auto simp: peekChar_def readChar_def pending_def split: list.splits sum.splits)

lemma peekChar_hasChar: "peekChar p = (Inr ch, p') \<Longrightarrow> hasChar p' \<and> char p' = ch"
  by (auto simp: peekChar_def readChar_def split: list.splits sum.splits if_splits)

function skipWhitespace :: "SGFParser \<Rightarrow> SGFParser" where
  "skipWhitespace p =
     (case peekChar p of
        (Inl e, p') \<Rightarrow> p'
      | (Inr ch, p') \<Rightarrow>
          if isBlank ch then skipWhitespace (snd (readChar p')) else p')"
  by pat_completeness auto
termination
proof (relation "measure pending")
  show "wf (measure pending)" by simp
next
  fix p x1 p' ch
  assume "(x1, p') = peekChar p" and "x1 = Inr ch" and "isBlank ch"
  then have pk: "peekChar p = (Inr ch, p')" by simp
  from peekChar_hasChar[OF pk] have "hasChar p'" by simp
  then have "pending (snd (readChar p')) < pending p'"
    by (simp add: readChar_def pending_def)
  moreover have "pending p' \<le> pending p" using peekChar_pending_le[of p] pk by simp
  ultimately show "(snd (readChar p'), p) \<in> measure pending" by simp
qed

declare skipWhitespace.simps [simp del]

lemma skipWhitespace_pending_le: "pending (skipWhitespace p) \<le> pending p"
proof (induction p rule: skipWhitespace.induct)
  case (1 p)
  obtain r p' where pk: "peekChar p = (r, p')" by (cases "peekChar p")
  have le: "pending p' \<le> pending p" using peekChar_pending_le[of p] pk by simp
  show ?case
  proof (cases r)
    case (Inl e)
    with pk le show ?thesis by (subst skipWhitespace.simps) simp
  next
    case (Inr ch)
    show ?thesis
    proof (cases "isBlank ch")
      case True
      have "pending (skipWhitespace (snd (readChar p'))) \<le> pending (snd (readChar p'))"
        using "1.IH"[OF pk[symmetric] Inr True] .
      also have "\<dots> \<le> pending p'" by (rule readChar_pending_le)
      finally show ?thesis using pk Inr True le by (subst skipWhitespace.simps) simp
    next
      case False
      with pk Inr le show ?thesis by (subst skipWhitespace.simps) simp
    qed
  qed
qed

section \<open>Tree parser (parser.go)\<close>

text \<open>
  Go's conversion of a rune to a string (\<open>string(ch)\<close>, \<open>WriteRune\<close>): the UTF-8
  encoding, with the replacement character U+FFFD for a value that is no code point.
\<close>

definition utf8 :: "rune \<Rightarrow> string" where
  "utf8 r =
     (if 0 \<le> r \<and> r < 0x80 then [char_of r]
      else if 0x80 \<le> r \<and> r < 0x800 then
        [char_of (0xC0 + r div 0x40), char_of (0x80 + r mod 0x40)]
      else if r < 0 \<or> 0x10FFFF < r \<or> (0xD800 \<le> r \<and> r \<le> 0xDFFF) then
        [char_of (0xEF :: int), char_of (0xBF :: int), char_of (0xBD :: int)]
      else if r < 0x10000 then
        [char_of (0xE0 + r div 0x1000), char_of (0x80 + (r div 0x40) mod 0x40),
         char_of (0x80 + r mod 0x40)]
      else
        [char_of (0xF0 + r div 0x40000), char_of (0x80 + (r div 0x1000) mod 0x40),
         char_of (0x80 + (r div 0x40) mod 0x40), char_of (0x80 + r mod 0x40)])"

datatype SGFNode =
  SGFNode (Properties: "string \<Rightarrow> string list option") (Children: "SGFNode list")

definition isLetter :: "rune \<Rightarrow> bool" where
  "isLetter ch \<longleftrightarrow> (65 \<le> ch \<and> ch \<le> 90) \<or> (97 \<le> ch \<and> ch \<le> 122)"

text \<open>The loop of \<open>parsePropertyValue\<close>, after the opening bracket.\<close>

function parsePropertyValue_loop ::
  "bool \<Rightarrow> string \<Rightarrow> SGFParser \<Rightarrow> (error + string) \<times> SGFParser" where
  "parsePropertyValue_loop escaped val p =
     (case readChar p of
        (Inl e, p') \<Rightarrow> (Inl e, p')
      | (Inr ch, p') \<Rightarrow>
          if escaped then parsePropertyValue_loop False (val @ utf8 ch) p'
          else if ch = rune_of CHR 0x5C then parsePropertyValue_loop True val p'
          else if ch = rune_of CHR '']'' then (Inr val, p')
          else parsePropertyValue_loop False (val @ utf8 ch) p')"
  by pat_completeness auto
termination
  by (relation "measure (\<lambda>(escaped, val, p). pending p)")
     (auto dest: readChar_pending_less[OF sym])

declare parsePropertyValue_loop.simps [simp del]

definition parsePropertyValue :: "SGFParser \<Rightarrow> (error + string) \<times> SGFParser" where
  "parsePropertyValue p =
     (case readChar p of
        (Inl e, p') \<Rightarrow> (Inl ExpectedBracket, p')
      | (Inr ch, p') \<Rightarrow>
          if ch \<noteq> rune_of CHR ''['' then (Inl ExpectedBracket, p')
          else parsePropertyValue_loop False [] p')"

lemma parsePropertyValue_loop_pending_le:
  "pending (snd (parsePropertyValue_loop escaped val p)) \<le> pending p"
proof (induction escaped val p rule: parsePropertyValue_loop.induct)
  case (1 escaped val p)
  obtain r p' where rd: "readChar p = (r, p')" by (cases "readChar p")
  have le: "pending p' \<le> pending p" using readChar_pending_le[of p] rd by simp
  show ?case
  proof (cases r)
    case (Inl e)
    with rd le show ?thesis by (subst parsePropertyValue_loop.simps) simp
  next
    case (Inr ch)
    note IH = "1.IH"[OF rd[symmetric] Inr]
    have eq: "parsePropertyValue_loop escaped val p =
        (if escaped then parsePropertyValue_loop False (val @ utf8 ch) p'
         else if ch = rune_of CHR 0x5C then parsePropertyValue_loop True val p'
         else if ch = rune_of CHR '']'' then (Inr val, p')
         else parsePropertyValue_loop False (val @ utf8 ch) p')"
      using rd Inr by (subst parsePropertyValue_loop.simps) simp
    show ?thesis
      using le IH unfolding eq by (auto intro: le_trans)
  qed
qed

lemma parsePropertyValue_pending_le: "pending (snd (parsePropertyValue p)) \<le> pending p"
proof -
  obtain r p' where rd: "readChar p = (r, p')" by (cases "readChar p")
  have le: "pending p' \<le> pending p" using readChar_pending_le[of p] rd by simp
  show ?thesis
    using rd le parsePropertyValue_loop_pending_le[of False "[]" p']
    by (cases r) (auto simp: parsePropertyValue_def)
qed

lemma parsePropertyValue_pending_less:
  assumes "parsePropertyValue p = (Inr v, p')"
  shows "pending p' < pending p"
proof -
  obtain r p1 where rd: "readChar p = (r, p1)" by (cases "readChar p")
  with assms obtain ch where r: "r = Inr ch"
    by (cases r) (auto simp: parsePropertyValue_def)
  have lt: "pending p1 < pending p" using readChar_pending_less rd r by simp
  have "p' = snd (parsePropertyValue_loop False [] p1)"
    using assms rd r by (auto simp: parsePropertyValue_def split: if_splits)
  then have "pending p' \<le> pending p1" by (simp add: parsePropertyValue_loop_pending_le)
  with lt show ?thesis by simp
qed

text \<open>The two loops of \<open>parseProperty\<close>: the name, then the bracketed values.\<close>

function parseProperty_name :: "string \<Rightarrow> SGFParser \<Rightarrow> (error + string) \<times> SGFParser" where
  "parseProperty_name name p =
     (case readChar p of
        (Inl e, p') \<Rightarrow> (Inl e, p')
      | (Inr ch, p') \<Rightarrow>
          if isLetter ch then
            (let name' = name @ utf8 ch
             in if length name' \<ge> 2 then (Inr name', p') else parseProperty_name name' p')
          else (Inr name, unreadChar p'))"
  by pat_completeness auto
termination
  by (relation "measure (\<lambda>(name, p). pending p)")
     (auto dest: readChar_pending_less[OF sym])

declare parseProperty_name.simps [simp del]

lemma readChar_unread_pending_le:
  "readChar p = (Inr ch, p') \<Longrightarrow> pending (unreadChar p') \<le> pending p"
  by (auto simp: readChar_def unreadChar_def pending_def split: list.splits sum.splits if_splits)

lemma parseProperty_name_pending_le:
  "pending (snd (parseProperty_name name p)) \<le> pending p"
proof (induction name p rule: parseProperty_name.induct)
  case (1 name p)
  obtain r p' where rd: "readChar p = (r, p')" by (cases "readChar p")
  have le: "pending p' \<le> pending p" using readChar_pending_le[of p] rd by simp
  show ?case
  proof (cases r)
    case (Inl e)
    with rd le show ?thesis by (subst parseProperty_name.simps) simp
  next
    case (Inr ch)
    have eq: "parseProperty_name name p =
        (if isLetter ch then
           (if length (name @ utf8 ch) \<ge> 2 then (Inr (name @ utf8 ch), p')
            else parseProperty_name (name @ utf8 ch) p')
         else (Inr name, unreadChar p'))"
      using rd Inr by (subst parseProperty_name.simps) (simp add: Let_def)
    have un: "pending (unreadChar p') \<le> pending p"
      using readChar_unread_pending_le rd Inr by simp
    have IH: "isLetter ch \<Longrightarrow> \<not> 2 \<le> length (name @ utf8 ch) \<Longrightarrow>
        pending (snd (parseProperty_name (name @ utf8 ch) p')) \<le> pending p'"
      using "1.IH"[OF rd[symmetric] Inr] by simp
    show ?thesis using le un IH unfolding eq by (auto intro: le_trans)
  qed
qed

lemma parseProperty_name_pending_less:
  assumes "hasChar p" and "isLetter (char p)"
  shows "pending (snd (parseProperty_name name p)) < pending p"
proof -
  let ?p' = "p\<lparr>hasChar := False\<rparr>"
  have rd: "readChar p = (Inr (char p), ?p')" using assms by (simp add: readChar_def)
  have lt: "pending ?p' < pending p" using assms by (simp add: pending_def)
  have eq: "parseProperty_name name p =
      (if length (name @ utf8 (char p)) \<ge> 2 then (Inr (name @ utf8 (char p)), ?p')
       else parseProperty_name (name @ utf8 (char p)) ?p')"
    using rd assms by (subst parseProperty_name.simps) (simp add: Let_def)
  show ?thesis
    using lt parseProperty_name_pending_le[of "name @ utf8 (char p)" ?p']
    unfolding eq by auto
qed

function parseProperty_values ::
  "string list \<Rightarrow> SGFParser \<Rightarrow> (error + string list) \<times> SGFParser" where
  "parseProperty_values values p =
     (case peekChar (skipWhitespace p) of
        (Inl e, p') \<Rightarrow> (Inl e, p')
      | (Inr ch, p') \<Rightarrow>
          if ch = rune_of CHR ''['' then
            (case parsePropertyValue p' of
               (Inl e, p'') \<Rightarrow> (Inl e, p'')
             | (Inr v, p'') \<Rightarrow> parseProperty_values (values @ [v]) p'')
          else (Inr values, p'))"
  by pat_completeness auto
termination
proof (relation "measure (\<lambda>(values, p). pending p)")
  show "wf (measure (\<lambda>(values, p). pending p))" by simp
next
  fix vals :: "string list" and p x1 p' ch x1a p'' v
  assume pk: "(x1, p') = peekChar (skipWhitespace p)" and "x1 = Inr ch"
    and pv: "(x1a, p'') = parsePropertyValue p'" and "x1a = Inr v"
  then have "pending p'' < pending p'" using parsePropertyValue_pending_less[of p' v p''] by simp
  moreover have "pending p' \<le> pending (skipWhitespace p)"
    using peekChar_pending_le[of "skipWhitespace p"] pk[symmetric] by simp
  moreover have "pending (skipWhitespace p) \<le> pending p" by (rule skipWhitespace_pending_le)
  ultimately show "((vals @ [v], p''), (vals, p)) \<in> measure (\<lambda>(values, p). pending p)"
    by simp
qed

declare parseProperty_values.simps [simp del]

lemma peek_skip_pending_le: "pending (snd (peekChar (skipWhitespace p))) \<le> pending p"
  using peekChar_pending_le[of "skipWhitespace p"] skipWhitespace_pending_le[of p] by simp

lemma parseProperty_values_pending_le:
  "pending (snd (parseProperty_values vals p)) \<le> pending p"
proof (induction vals p rule: parseProperty_values.induct)
  case (1 vals p)
  obtain r p' where pk: "peekChar (skipWhitespace p) = (r, p')"
    by (cases "peekChar (skipWhitespace p)")
  have le: "pending p' \<le> pending p" using peek_skip_pending_le[of p] pk by simp
  show ?case
  proof (cases r)
    case (Inl e)
    with pk le show ?thesis by (subst parseProperty_values.simps) simp
  next
    case (Inr ch)
    obtain r2 p'' where pv: "parsePropertyValue p' = (r2, p'')"
      by (cases "parsePropertyValue p'")
    have le2: "pending p'' \<le> pending p'" using parsePropertyValue_pending_le[of p'] pv by simp
    have eq: "parseProperty_values vals p =
        (if ch = rune_of CHR ''['' then
           (case r2 of Inl e \<Rightarrow> (Inl e, p'')
            | Inr v \<Rightarrow> parseProperty_values (vals @ [v]) p'')
         else (Inr vals, p'))"
      using pk Inr pv by (subst parseProperty_values.simps) simp
    have IH: "\<And>v. ch = rune_of CHR ''['' \<Longrightarrow> r2 = Inr v \<Longrightarrow>
        pending (snd (parseProperty_values (vals @ [v]) p'')) \<le> pending p''"
      using "1.IH"[OF pk[symmetric] Inr _ pv[symmetric]] by simp
    show ?thesis using le le2 IH unfolding eq by (auto intro: le_trans split: sum.splits)
  qed
qed

definition parseProperty ::
  "SGFParser \<Rightarrow> (error + string \<times> string list) \<times> SGFParser" where
  "parseProperty p =
     (case parseProperty_name [] p of
        (Inl e, p') \<Rightarrow> (Inl e, p')
      | (Inr name, p') \<Rightarrow>
          (case parseProperty_values [] p' of
             (Inl e, p'') \<Rightarrow> (Inl e, p'')
           | (Inr values, p'') \<Rightarrow> (Inr (name, values), p'')))"

lemma parseProperty_pending_less:
  assumes "hasChar p" and "isLetter (char p)"
  shows "pending (snd (parseProperty p)) < pending p"
proof -
  obtain r p' where nm: "parseProperty_name [] p = (r, p')" by (cases "parseProperty_name [] p")
  have lt: "pending p' < pending p"
    using parseProperty_name_pending_less[OF assms, of "[]"] nm by simp
  obtain r2 p'' where vs: "parseProperty_values [] p' = (r2, p'')"
    by (cases "parseProperty_values [] p'")
  have le: "pending p'' \<le> pending p'" using parseProperty_values_pending_le[of "[]" p'] vs by simp
  show ?thesis using nm vs lt le
    by (cases r; cases r2) (auto simp: parseProperty_def)
qed

text \<open>The loop of \<open>parseNode\<close>, after the semicolon; \<open>props\<close> is \<open>node.Properties\<close>.\<close>

function parseNode_loop ::
  "(string \<Rightarrow> string list option) \<Rightarrow> SGFParser \<Rightarrow> (error + SGFNode) \<times> SGFParser" where
  "parseNode_loop props p =
     (case peekChar (skipWhitespace p) of
        (Inl e, p') \<Rightarrow> (Inl e, p')
      | (Inr ch, p') \<Rightarrow>
          if isLetter ch then
            (case parseProperty p' of
               (Inl e, p'') \<Rightarrow> (Inl (PropertyError e), p'')
             | (Inr prop, p'') \<Rightarrow> parseNode_loop (props(fst prop \<mapsto> snd prop)) p'')
          else (Inr (SGFNode props []), p'))"
  by pat_completeness auto
termination
proof (relation "measure (\<lambda>(props, p). pending p)")
  show "wf (measure (\<lambda>(props, p). pending p))" by simp
next
  fix props :: "string \<Rightarrow> string list option" and p x1 p' ch x1a p''
    and nv :: "string \<times> string list"
  assume pk: "(x1, p') = peekChar (skipWhitespace p)" and x1: "x1 = Inr ch"
    and lt: "isLetter ch" and pp: "(x1a, p'') = parseProperty p'"
  from pk x1 have pk': "peekChar (skipWhitespace p) = (Inr ch, p')" by simp
  from peekChar_hasChar[OF pk'] lt have "hasChar p'" "isLetter (char p')" by simp_all
  then have "pending (snd (parseProperty p')) < pending p'" by (rule parseProperty_pending_less)
  then have "pending p'' < pending p'" using pp[symmetric] by simp
  moreover have "pending p' \<le> pending p" using peek_skip_pending_le[of p] pk' by simp
  ultimately show "((props(fst nv \<mapsto> snd nv), p''), (props, p))
      \<in> measure (\<lambda>(props, p). pending p)" by simp
qed

declare parseNode_loop.simps [simp del]

definition parseNode :: "SGFParser \<Rightarrow> (error + SGFNode) \<times> SGFParser" where
  "parseNode p =
     (case readChar p of
        (Inl e, p') \<Rightarrow> (Inl ExpectedSemicolon, p')
      | (Inr ch, p') \<Rightarrow>
          if ch \<noteq> rune_of CHR '';'' then (Inl ExpectedSemicolon, p')
          else parseNode_loop Map.empty p')"

lemma parseNode_loop_pending_le: "pending (snd (parseNode_loop props p)) \<le> pending p"
proof (induction props p rule: parseNode_loop.induct)
  case (1 props p)
  obtain r p' where pk: "peekChar (skipWhitespace p) = (r, p')"
    by (cases "peekChar (skipWhitespace p)")
  have le: "pending p' \<le> pending p" using peek_skip_pending_le[of p] pk by simp
  show ?case
  proof (cases r)
    case (Inl e)
    with pk le show ?thesis by (subst parseNode_loop.simps) simp
  next
    case (Inr ch)
    obtain r2 p'' where pp: "parseProperty p' = (r2, p'')" by (cases "parseProperty p'")
    have eq: "parseNode_loop props p =
        (if isLetter ch then
           (case r2 of Inl e \<Rightarrow> (Inl (PropertyError e), p'')
            | Inr prop \<Rightarrow> parseNode_loop (props(fst prop \<mapsto> snd prop)) p'')
         else (Inr (SGFNode props []), p'))"
      using pk Inr pp by (subst parseNode_loop.simps) simp
    have le2: "isLetter ch \<Longrightarrow> pending p'' \<le> pending p'"
      using parseProperty_pending_less[of p'] peekChar_hasChar[of "skipWhitespace p" ch p'] pk Inr pp
      by simp
    have IH: "\<And>nv. isLetter ch \<Longrightarrow> r2 = Inr nv \<Longrightarrow>
        pending (snd (parseNode_loop (props(fst nv \<mapsto> snd nv)) p'')) \<le> pending p''"
      using "1.IH"[OF pk[symmetric] Inr _ pp[symmetric]] by blast
    show ?thesis using le le2 IH unfolding eq by (auto intro: le_trans split: sum.splits)
  qed
qed

lemma parseNode_pending_le: "pending (snd (parseNode p)) \<le> pending p"
proof -
  obtain r p' where rd: "readChar p = (r, p')" by (cases "readChar p")
  have le: "pending p' \<le> pending p" using readChar_pending_le[of p] rd by simp
  show ?thesis
    using rd le parseNode_loop_pending_le[of Map.empty p']
    by (cases r) (auto simp: parseNode_def)
qed

lemma parseNode_pending_less:
  assumes "parseNode p = (Inr node, p')"
  shows "pending p' < pending p"
proof -
  obtain r p1 where rd: "readChar p = (r, p1)" by (cases "readChar p")
  with assms obtain ch where r: "r = Inr ch" by (cases r) (auto simp: parseNode_def)
  have lt: "pending p1 < pending p" using readChar_pending_less rd r by simp
  have "p' = snd (parseNode_loop Map.empty p1)"
    using assms rd r by (auto simp: parseNode_def split: if_splits)
  then have "pending p' \<le> pending p1" by (simp add: parseNode_loop_pending_le)
  with lt show ?thesis by simp
qed

text \<open>
  The variation branch of \<open>parseGame\<close>: characters are read and dropped while the
  parenthesis depth is positive.
\<close>

function parseGame_skip :: "int \<Rightarrow> SGFParser \<Rightarrow> (error + unit) \<times> SGFParser" where
  "parseGame_skip depth p =
     (if depth > 0 then
        (case readChar p of
           (Inl e, p') \<Rightarrow> (Inl e, p')
         | (Inr ch, p') \<Rightarrow>
             if ch = rune_of CHR ''('' then parseGame_skip (depth + 1) p'
             else if ch = rune_of CHR '')'' then parseGame_skip (depth - 1) p'
             else parseGame_skip depth p')
      else (Inr (), p))"
  by pat_completeness auto
termination
  by (relation "measure (\<lambda>(depth, p). pending p)")
     (auto dest: readChar_pending_less[OF sym])

declare parseGame_skip.simps [simp del]

lemma parseGame_skip_pending_le: "pending (snd (parseGame_skip depth p)) \<le> pending p"
proof (induction depth p rule: parseGame_skip.induct)
  case (1 depth p)
  show ?case
  proof (cases "depth > 0")
    case False
    then show ?thesis by (subst parseGame_skip.simps) simp
  next
    case True
    obtain r p' where rd: "readChar p = (r, p')" by (cases "readChar p")
    have le: "pending p' \<le> pending p" using readChar_pending_le[of p] rd by simp
    show ?thesis
    proof (cases r)
      case (Inl e)
      with rd le True show ?thesis by (subst parseGame_skip.simps) simp
    next
      case (Inr ch)
      have eq: "parseGame_skip depth p =
          (if ch = rune_of CHR ''('' then parseGame_skip (depth + 1) p'
           else if ch = rune_of CHR '')'' then parseGame_skip (depth - 1) p'
           else parseGame_skip depth p')"
        using rd Inr True by (subst parseGame_skip.simps) simp
      note IH = "1.IH"[OF True rd[symmetric] Inr]
      show ?thesis using le IH unfolding eq by (auto intro: le_trans)
    qed
  qed
qed

text \<open>
  \<open>current.Children = append(current.Children, node); current = node\<close>: in
  \<open>parseGame\<close> the pointer \<open>current\<close> is always the end of the chain of children
  that starts at \<open>root\<close>, so the update is an append at the end of that chain.
\<close>

fun appendToCurrent :: "SGFNode \<Rightarrow> SGFNode \<Rightarrow> SGFNode" where
  "appendToCurrent (SGFNode props []) node = SGFNode props [node]"
| "appendToCurrent (SGFNode props (c # cs)) node = SGFNode props (appendToCurrent c node # cs)"

function parseGame_loop :: "SGFNode \<Rightarrow> SGFParser \<Rightarrow> (error + SGFNode) \<times> SGFParser" where
  "parseGame_loop root p =
     (case peekChar (skipWhitespace p) of
        (Inl e, p') \<Rightarrow> (Inl e, p')
      | (Inr ch, p') \<Rightarrow>
          if ch = rune_of CHR '')'' then (Inr root, snd (readChar p'))
          else if ch = rune_of CHR '';'' then
            (case parseNode p' of
               (Inl e, p'') \<Rightarrow> (Inl e, p'')
             | (Inr node, p'') \<Rightarrow>
                 if Properties root = Map.empty then parseGame_loop node p''
                 else parseGame_loop (appendToCurrent root node) p'')
          else if ch = rune_of CHR ''('' then
            (case parseGame_skip 1 (snd (readChar p')) of
               (Inl e, p'') \<Rightarrow> (Inl e, p'')
             | (Inr u, p'') \<Rightarrow> parseGame_loop root p'')
          else (Inl (UnexpectedChar ch), p'))"
  by pat_completeness auto
termination
proof (relation "measure (\<lambda>(root, p). pending p)")
  show "wf (measure (\<lambda>(root, p). pending p))" by simp
next
  fix root p x1 p' ch x1a p'' node
  assume pk: "(x1, p') = peekChar (skipWhitespace p)" and x1: "x1 = Inr ch"
    and pn: "(x1a, p'') = parseNode p'" and x1a: "x1a = Inr node"
  have "pending p'' < pending p'" using parseNode_pending_less[of p' node p''] pn x1a by simp
  moreover have "pending p' \<le> pending p" using peek_skip_pending_le[of p] pk[symmetric] by simp
  ultimately have lt: "pending p'' < pending p" by simp
  { assume "Properties root = Map.empty"
    show "((node, p''), (root, p)) \<in> measure (\<lambda>(root, p). pending p)" using lt by simp }
  { assume "Properties root \<noteq> Map.empty"
    show "((appendToCurrent root node, p''), (root, p)) \<in> measure (\<lambda>(root, p). pending p)"
      using lt by simp }
next
  fix root p x1 p' ch x1a p'' u
  assume pk: "(x1, p') = peekChar (skipWhitespace p)" and x1: "x1 = Inr ch"
    and sk: "(x1a, p'') = parseGame_skip 1 (snd (readChar p'))"
  from pk x1 have pk': "peekChar (skipWhitespace p) = (Inr ch, p')" by simp
  from peekChar_hasChar[OF pk'] have "hasChar p'" by simp
  then have "pending (snd (readChar p')) < pending p'" by (simp add: readChar_def pending_def)
  moreover have "pending p'' \<le> pending (snd (readChar p'))"
    using parseGame_skip_pending_le[of 1 "snd (readChar p')"] sk[symmetric] by simp
  moreover have "pending p' \<le> pending p" using peek_skip_pending_le[of p] pk' by simp
  ultimately show "((root, p''), (root, p)) \<in> measure (\<lambda>(root, p). pending p)" by simp
qed

declare parseGame_loop.simps [simp del]

definition emptyNode :: SGFNode where
  "emptyNode = SGFNode Map.empty []"

definition parseGame :: "SGFParser \<Rightarrow> (error + SGFNode) \<times> SGFParser" where
  "parseGame p =
     (case readChar p of
        (Inl e, p') \<Rightarrow> (Inl ExpectedOpenParen, p')
      | (Inr ch, p') \<Rightarrow>
          if ch \<noteq> rune_of CHR ''('' then (Inl ExpectedOpenParen, p')
          else parseGame_loop emptyNode p')"

lemma parseGame_loop_pending_le: "pending (snd (parseGame_loop root p)) \<le> pending p"
proof (induction root p rule: parseGame_loop.induct)
  case (1 root p)
  obtain r p' where pk: "peekChar (skipWhitespace p) = (r, p')"
    by (cases "peekChar (skipWhitespace p)")
  have le: "pending p' \<le> pending p" using peek_skip_pending_le[of p] pk by simp
  show ?case
  proof (cases r)
    case (Inl e)
    with pk le show ?thesis by (subst parseGame_loop.simps) simp
  next
    case (Inr ch)
    obtain r2 p2 where pn: "parseNode p' = (r2, p2)" by (cases "parseNode p'")
    obtain r3 p3 where sk: "parseGame_skip 1 (snd (readChar p')) = (r3, p3)"
      by (cases "parseGame_skip 1 (snd (readChar p'))")
    have eq: "parseGame_loop root p =
        (if ch = rune_of CHR '')'' then (Inr root, snd (readChar p'))
         else if ch = rune_of CHR '';'' then
           (case r2 of Inl e \<Rightarrow> (Inl e, p2)
            | Inr node \<Rightarrow>
                if Properties root = Map.empty then parseGame_loop node p2
                else parseGame_loop (appendToCurrent root node) p2)
         else if ch = rune_of CHR ''('' then
           (case r3 of Inl e \<Rightarrow> (Inl e, p3) | Inr u \<Rightarrow> parseGame_loop root p3)
         else (Inl (UnexpectedChar ch), p'))"
      using pk Inr pn sk by (subst parseGame_loop.simps) simp
    have rdle: "pending (snd (readChar p')) \<le> pending p'" by (rule readChar_pending_le)
    have le2: "r2 = Inl e \<Longrightarrow> pending p2 \<le> pending p'" for e
      using parseNode_pending_le[of p'] pn by simp
    have lt2: "r2 = Inr node \<Longrightarrow> pending p2 \<le> pending p'" for node
      using parseNode_pending_less[of p' node p2] pn by simp
    have le3: "pending p3 \<le> pending p'"
      using parseGame_skip_pending_le[of 1 "snd (readChar p')"] sk rdle by simp
    have IH1: "\<And>node. ch \<noteq> rune_of CHR '')'' \<Longrightarrow> ch = rune_of CHR '';'' \<Longrightarrow> r2 = Inr node \<Longrightarrow>
        Properties root = Map.empty \<Longrightarrow> pending (snd (parseGame_loop node p2)) \<le> pending p2"
      using "1.IH"(1)[OF pk[symmetric] Inr _ _ pn[symmetric]] by blast
    have IH2: "\<And>node. ch \<noteq> rune_of CHR '')'' \<Longrightarrow> ch = rune_of CHR '';'' \<Longrightarrow> r2 = Inr node \<Longrightarrow>
        Properties root \<noteq> Map.empty \<Longrightarrow>
        pending (snd (parseGame_loop (appendToCurrent root node) p2)) \<le> pending p2"
      using "1.IH"(2)[OF pk[symmetric] Inr _ _ pn[symmetric]] by blast
    have IH3: "\<And>u. ch \<noteq> rune_of CHR '')'' \<Longrightarrow> ch \<noteq> rune_of CHR '';'' \<Longrightarrow> ch = rune_of CHR ''('' \<Longrightarrow>
        r3 = Inr u \<Longrightarrow> pending (snd (parseGame_loop root p3)) \<le> pending p3"
      using "1.IH"(3)[OF pk[symmetric] Inr _ _ _ sk[symmetric]] by blast
    show ?thesis
    proof (cases "ch = rune_of CHR '')''")
      case True
      then show ?thesis using le rdle unfolding eq by simp
    next
      case nclose: False
      show ?thesis
      proof (cases "ch = rune_of CHR '';''")
        case True
        show ?thesis
        proof (cases r2)
          case (Inl e)
          then show ?thesis using nclose True le le2[OF Inl] unfolding eq by simp
        next
          case (Inr node)
          show ?thesis
            using nclose True Inr le lt2[OF Inr] IH1[OF nclose True Inr] IH2[OF nclose True Inr]
            unfolding eq by (cases "Properties root = Map.empty") auto
        qed
      next
        case nsemi: False
        show ?thesis
        proof (cases "ch = rune_of CHR ''(''")
          case True
          show ?thesis
          proof (cases r3)
            case (Inl e)
            then show ?thesis using nclose nsemi True le le3 unfolding eq by simp
          next
            case (Inr u)
            then show ?thesis
              using nclose nsemi True le le3 IH3[OF nclose nsemi True Inr] unfolding eq by simp
          qed
        next
          case False
          then show ?thesis using nclose nsemi le unfolding eq by simp
        qed
      qed
    qed
  qed
qed

lemma parseGame_pending_less:
  assumes "parseGame p = (Inr game, p')"
  shows "pending p' < pending p"
proof -
  obtain r p1 where rd: "readChar p = (r, p1)" by (cases "readChar p")
  with assms obtain ch where r: "r = Inr ch" by (cases r) (auto simp: parseGame_def)
  have lt: "pending p1 < pending p" using readChar_pending_less rd r by simp
  have "p' = snd (parseGame_loop emptyNode p1)"
    using assms rd r by (auto simp: parseGame_def split: if_splits)
  then have "pending p' \<le> pending p1" by (simp add: parseGame_loop_pending_le)
  with lt show ?thesis by simp
qed

text \<open>The loop of \<open>parseGameTree\<close>; \<open>games\<close> is the slice built so far.\<close>

function parseGameTree_loop ::
  "SGFNode list \<Rightarrow> SGFParser \<Rightarrow> (error + SGFNode list) \<times> SGFParser" where
  "parseGameTree_loop games p =
     (case peekChar (skipWhitespace p) of
        (Inl e, p') \<Rightarrow> if e = EOF then (Inr games, p') else (Inl e, p')
      | (Inr ch, p') \<Rightarrow>
          if ch = rune_of CHR ''('' then
            (case parseGame p' of
               (Inl e, p'') \<Rightarrow> (Inl e, p'')
             | (Inr game, p'') \<Rightarrow> parseGameTree_loop (games @ [game]) p'')
          else (Inr games, p'))"
  by pat_completeness auto
termination
proof (relation "measure (\<lambda>(games, p). pending p)")
  show "wf (measure (\<lambda>(games, p). pending p))" by simp
next
  fix games p x1 p' ch x1a p'' game
  assume pk: "(x1, p') = peekChar (skipWhitespace p)" and "x1 = Inr ch"
    and pg: "(x1a, p'') = parseGame p'" and "x1a = Inr game"
  then have "pending p'' < pending p'" using parseGame_pending_less[of p' game p''] by simp
  moreover have "pending p' \<le> pending p" using peek_skip_pending_le[of p] pk[symmetric] by simp
  ultimately show "((games @ [game], p''), (games, p)) \<in> measure (\<lambda>(games, p). pending p)"
    by simp
qed

declare parseGameTree_loop.simps [simp del]

definition parseGameTree :: "SGFParser \<Rightarrow> (error + SGFNode list) \<times> SGFParser" where
  "parseGameTree p = parseGameTree_loop [] p"

section \<open>The match model\<close>

text \<open>
  Go's \<open>float32\<close> and \<open>float64\<close> are the type parameters \<open>'f\<close> and \<open>'d\<close>; the
  operations on them come with the library record below.  A fixed-size array is a list
  of that length.  Struct fields that the converter never writes (\<open>Statistics\<close>, the
  cube and score fields of \<open>Position\<close>) are left out.
\<close>

datatype MoveType =
    MoveTypeUnset
  | MoveTypeNormal
  | MoveTypeDouble
  | MoveTypeTake
  | MoveTypeDrop
  | MoveTypeResign
  | MoveTypeSetBoard
  | MoveTypeSetDice
  | MoveTypeSetCube
  | MoveTypeSetCubePos

record Position =
  Board :: "int list list"
  OnRoll :: int

record ('f, 'd) MoveOption =
  Move :: "int list"
  MoveString :: string
  Equity :: 'd
  Player1WinRate :: 'f
  Player1GammonRate :: 'f
  Player1BackgammonRate :: 'f
  Player2WinRate :: 'f
  Player2GammonRate :: 'f
  Player2BackgammonRate :: 'f
  AnalysisDepth :: int

record ('f, 'd) MoveAnalysis =
  Moves :: "('f, 'd) MoveOption list"
  SelectedMove :: int

record ('f, 'd) CubeAnalysis =
  Player1WinRate :: 'f
  Player1GammonRate :: 'f
  Player1BackgammonRate :: 'f
  Player2WinRate :: 'f
  Player2GammonRate :: 'f
  Player2BackgammonRate :: 'f
  CubelessEquity :: 'd
  CubefulNoDouble :: 'd
  CubefulDoubleTake :: 'd
  CubefulDoublePass :: 'd
  TooGoodPoint :: 'd
  BestAction :: string
  WrongPassTakePercent :: 'f
  AnalysisDepth :: int

record 'd LuckRating =
  Rating :: string
  Value :: 'd

record 'd SkillRating =
  Rating :: string
  Error :: 'd

record ('f, 'd) MoveRecord =
  Type :: MoveType
  Player :: int
  Dice :: "int list"
  Move :: "int list"
  MoveString :: string
  CubeValue :: int
  CubeOwner :: int
  Position :: "Position option"
  Analysis :: "('f, 'd) MoveAnalysis option"
  CubeAnalysis :: "('f, 'd) CubeAnalysis option"
  Luck :: "'d LuckRating option"
  Skill :: "'d SkillRating option"
  Comment :: string

record ('f, 'd) Game =
  GameNumber :: int
  Score :: "int list"
  Variation :: string
  Crawford :: bool
  CrawfordGame :: bool
  Jacoby :: bool
  CubeEnabled :: bool
  AutoDoubles :: int
  Winner :: int
  Points :: int
  Resigned :: bool
  Moves :: "('f, 'd) MoveRecord list"
  GameComment :: string

record MatchMetadata =
  Player1 :: string
  Player2 :: string
  Rating1 :: string
  Rating2 :: string
  MatchLength :: int
  Event :: string
  Round :: string
  Place :: string
  Date :: string
  Annotator :: string
  Comment :: string
  Application :: string

record ('f, 'd) Match =
  Metadata :: MatchMetadata
  Games :: "('f, 'd) Game list"

subsection \<open>Rendering a move (\<open>FormatMove\<close>, \<open>pointToString\<close>)\<close>

text \<open>
  Go's \<open>int\<close> is taken at 64 bits.  \<open>int64\<close> is the wrap-around of an arithmetic
  result, \<open>rune_of_int\<close> the conversion \<open>rune(x)\<close>, which keeps the low 32 bits.
\<close>

definition int64 :: "int \<Rightarrow> int" where
  "int64 x = sint (word_of_int x :: 64 word)"

definition rune_of_int :: "int \<Rightarrow> rune" where
  "rune_of_int x = sint (word_of_int x :: 32 word)"

definition pointToString :: "int \<Rightarrow> string" where
  "pointToString point =
     (if point = 24 then ''bar''
      else if point = 25 then ''off''
      else utf8 (rune_of_int (97 + point)))"

function FormatMove_loop :: "int list \<Rightarrow> int \<Rightarrow> nat \<Rightarrow> string \<Rightarrow> string" where
  "FormatMove_loop move player i result =
     (if i < 8 then
        (if move ! i = - 1 then result
         else
           (let result1 = (if i > 0 then result @ '' '' else result);
                from = (if player = 1 then int64 (23 - move ! i) else move ! i);
                to = (if player = 1 then int64 (23 - move ! (i + 1)) else move ! (i + 1))
            in FormatMove_loop move player (i + 2)
                 (result1 @ pointToString from @ ''/'' @ pointToString to)))
      else result)"
  by pat_completeness auto
termination
  by (relation "measure (\<lambda>(move, player, i, result). 8 - i)") auto

declare FormatMove_loop.simps [simp del]

definition FormatMove :: "int list \<Rightarrow> int \<Rightarrow> string" where
  "FormatMove move player =
     (if move ! 0 = - 1 then ''no move'' else FormatMove_loop move player 0 [])"

subsection \<open>Decoding a move (\<open>decodePoint\<close>, \<open>parseEncodedMove\<close>)\<close>

definition decodePoint :: "char \<Rightarrow> int" where
  "decodePoint ch =
     (if (97::nat) \<le> of_char ch \<and> of_char ch \<le> (120::nat) then int (of_char ch) - 97
      else if ch = CHR ''y'' then 24
      else if ch = CHR ''z'' then 25
      else - 1)"

text \<open>The loop shared by \<open>parseEncodedMove\<close> and \<open>parseEncodedMoveOption\<close>.\<close>

function decodePairs :: "string \<Rightarrow> nat \<Rightarrow> nat \<Rightarrow> int list \<Rightarrow> nat \<times> int list" where
  "decodePairs encoded i moveIdx move =
     (if i + 1 < length encoded \<and> moveIdx < 8 then
        decodePairs encoded (i + 2) (moveIdx + 2)
          (move[moveIdx := decodePoint (encoded ! i),
                moveIdx + 1 := decodePoint (encoded ! (i + 1))])
      else (moveIdx, move))"
  by pat_completeness auto
termination
  by (relation "measure (\<lambda>(encoded, i, moveIdx, move). 8 - moveIdx)") auto

declare decodePairs.simps [simp del]

definition terminateMove :: "nat \<times> int list \<Rightarrow> int list" where
  "terminateMove r = (if fst r < 8 then (snd r)[fst r := - 1] else snd r)"

definition parseEncodedMove :: "string \<Rightarrow> ('f, 'd) MoveRecord \<Rightarrow> ('f, 'd) MoveRecord" where
  "parseEncodedMove encoded mr =
     (let move = terminateMove (decodePairs encoded 0 0 (MoveRecord.Move mr))
      in mr\<lparr>MoveRecord.Move := move,
             MoveRecord.MoveString := FormatMove move (Player mr)\<rparr>)"

definition parseEncodedMoveOption :: "string \<Rightarrow> ('f, 'd) MoveOption \<Rightarrow> ('f, 'd) MoveOption" where
  "parseEncodedMoveOption encoded opt =
     (let move = terminateMove (decodePairs encoded 0 0 (MoveOption.Move opt))
      in opt\<lparr>MoveOption.Move := move,
              MoveOption.MoveString := FormatMove move 0\<rparr>)"

section \<open>The converter\<close>

subsection \<open>Library functions\<close>

text \<open>
  The functions of Go's standard library that work on Unicode white space or on
  floating-point numbers are parameters of the model: \<open>Fields\<close> is
  \<open>strings.Fields\<close>, \<open>TrimSpace\<close> is \<open>strings.TrimSpace\<close>, \<open>ParseFloat32\<close> and
  \<open>ParseFloat64\<close> give the value that \<open>parseFloat32\<close> and \<open>strconv.ParseFloat(s, 64)\<close>
  return (the converter drops their error), \<open>oneMinus x\<close> is the \<open>float32\<close>
  subtraction \<open>1.0 - x\<close>, \<open>zero32\<close> and \<open>zero64\<close> are the zero values and
  \<open>greater\<close> is the comparison \<^verbatim>\<open>>\<close> on \<open>float64\<close>.
\<close>

record ('f, 'd) golib =
  Fields :: "string \<Rightarrow> string list"
  TrimSpace :: "string \<Rightarrow> string"
  ParseFloat32 :: "string \<Rightarrow> 'f"
  ParseFloat64 :: "string \<Rightarrow> 'd"
  oneMinus :: "'f \<Rightarrow> 'f"
  zero32 :: 'f
  zero64 :: 'd
  greater :: "'d \<Rightarrow> 'd \<Rightarrow> bool"

text \<open>
  \<open>strconv.Atoi\<close> for a 64-bit \<open>int\<close>: an optional sign, then decimal digits only.
  The result is the value and whether the error is \<open>nil\<close>; a syntax error gives the
  value 0, a range error the nearest bound.
\<close>

definition isDigit :: "char \<Rightarrow> bool" where
  "isDigit c \<longleftrightarrow> (48::nat) \<le> of_char c \<and> of_char c \<le> (57::nat)"

fun digitsValue :: "string \<Rightarrow> int \<Rightarrow> int" where
  "digitsValue [] n = n"
| "digitsValue (c # cs) n = digitsValue cs (n * 10 + (int (of_char c) - 48))"

definition Atoi :: "string \<Rightarrow> int \<times> bool" where
  "Atoi s =
     (let neg = (s \<noteq> [] \<and> hd s = CHR ''-'');
          body = (if s \<noteq> [] \<and> (hd s = CHR ''-'' \<or> hd s = CHR ''+'') then tl s else s)
      in if body = [] \<or> \<not> list_all isDigit body then (0, False)
         else
           (let n = digitsValue body 0
            in if neg then (if n > 2 ^ 63 then (- (2 ^ 63), False) else (- n, True))
               else (if n \<ge> 2 ^ 63 then (2 ^ 63 - 1, False) else (n, True))))"

text \<open>\<open>string(b)\<close> for a byte \<open>b\<close>: the UTF-8 encoding of the code point \<open>b\<close>.\<close>

definition byteString :: "char \<Rightarrow> string" where
  "byteString b = utf8 (int (of_char b))"

subsection \<open>Property access (parser.go)\<close>

definition getProperty :: "SGFNode \<Rightarrow> string \<Rightarrow> string" where
  "getProperty node name =
     (case Properties node name of
        Some (v # vs) \<Rightarrow> v
      | _ \<Rightarrow> [])"

definition getPropertyInt :: "SGFNode \<Rightarrow> string \<Rightarrow> int" where
  "getPropertyInt node name =
     (let str = getProperty node name in if str = [] then 0 else fst (Atoi str))"

definition hasProperty :: "SGFNode \<Rightarrow> string \<Rightarrow> bool" where
  "hasProperty node name \<longleftrightarrow> Properties node name \<noteq> None"

text \<open>\<open>node.Properties[name]\<close>: the value list, \<open>nil\<close> for a missing key.\<close>

definition propertyValues :: "SGFNode \<Rightarrow> string \<Rightarrow> string list" where
  "propertyValues node name = (case Properties node name of None \<Rightarrow> [] | Some vs \<Rightarrow> vs)"

subsection \<open>Zero values\<close>

definition zeroMoveRecord :: "('f, 'd) MoveRecord" where
  "zeroMoveRecord =
     \<lparr>Type = MoveTypeUnset, Player = 0, Dice = [0, 0], MoveRecord.Move = replicate 8 0,
      MoveRecord.MoveString = [], CubeValue = 0, CubeOwner = 0, Position = None,
      Analysis = None, CubeAnalysis = None, Luck = None, Skill = None,
      MoveRecord.Comment = []\<rparr>"

definition zeroMoveOption :: "('f, 'd) golib \<Rightarrow> ('f, 'd) MoveOption" where
  "zeroMoveOption lib =
     \<lparr>MoveOption.Move = replicate 8 0, MoveOption.MoveString = [],
      MoveOption.Equity = zero64 lib,
      MoveOption.Player1WinRate = zero32 lib, MoveOption.Player1GammonRate = zero32 lib,
      MoveOption.Player1BackgammonRate = zero32 lib, MoveOption.Player2WinRate = zero32 lib,
      MoveOption.Player2GammonRate = zero32 lib, MoveOption.Player2BackgammonRate = zero32 lib,
      MoveOption.AnalysisDepth = 0\<rparr>"

definition zeroCubeAnalysis :: "('f, 'd) golib \<Rightarrow> ('f, 'd) CubeAnalysis" where
  "zeroCubeAnalysis lib =
     \<lparr>CubeAnalysis.Player1WinRate = zero32 lib, CubeAnalysis.Player1GammonRate = zero32 lib,
      CubeAnalysis.Player1BackgammonRate = zero32 lib, CubeAnalysis.Player2WinRate = zero32 lib,
      CubeAnalysis.Player2GammonRate = zero32 lib,
      CubeAnalysis.Player2BackgammonRate = zero32 lib,
      CubelessEquity = zero64 lib, CubefulNoDouble = zero64 lib,
      CubefulDoubleTake = zero64 lib, CubefulDoublePass = zero64 lib,
      TooGoodPoint = zero64 lib, BestAction = [], WrongPassTakePercent = zero32 lib,
      CubeAnalysis.AnalysisDepth = 0\<rparr>"

subsection \<open>Move analysis (\<open>parseMoveAnalysis\<close>)\<close>

text \<open>One turn of the loop over the rows, for a row of at least 10 tokens.\<close>

definition moveOptionOfParts ::
  "('f, 'd) golib \<Rightarrow> int \<Rightarrow> string list \<Rightarrow> ('f, 'd) MoveOption" where
  "moveOptionOfParts lib plyDepth parts =
     (let opt = zeroMoveOption lib;
          opt = (if length (parts ! 0) \<ge> 2 then parseEncodedMoveOption (parts ! 0) opt else opt);
          opt = opt\<lparr>MoveOption.Player1WinRate := ParseFloat32 lib (parts ! 4)\<rparr>;
          opt = opt\<lparr>MoveOption.Player1GammonRate := ParseFloat32 lib (parts ! 5)\<rparr>;
          opt = opt\<lparr>MoveOption.Player1BackgammonRate := ParseFloat32 lib (parts ! 6)\<rparr>;
          opt = opt\<lparr>MoveOption.Player2GammonRate := ParseFloat32 lib (parts ! 7)\<rparr>;
          opt = opt\<lparr>MoveOption.Player2BackgammonRate := ParseFloat32 lib (parts ! 8)\<rparr>;
          opt = opt\<lparr>MoveOption.Equity := ParseFloat64 lib (parts ! 9)\<rparr>;
          opt = opt\<lparr>MoveOption.Player2WinRate := oneMinus lib (MoveOption.Player1WinRate opt)\<rparr>
      in opt\<lparr>MoveOption.AnalysisDepth := plyDepth\<rparr>)"

fun parseMoveAnalysis_rows ::
  "('f, 'd) golib \<Rightarrow> int \<Rightarrow> string list \<Rightarrow> ('f, 'd) MoveOption list \<Rightarrow> ('f, 'd) MoveOption list" where
  "parseMoveAnalysis_rows lib plyDepth [] moves = moves"
| "parseMoveAnalysis_rows lib plyDepth (aStr # rest) moves =
     (let parts = Fields lib aStr
      in if length parts < 10 then parseMoveAnalysis_rows lib plyDepth rest moves
         else parseMoveAnalysis_rows lib plyDepth rest
                (moves @ [moveOptionOfParts lib plyDepth parts]))"

text \<open>
  The leading ply-depth element: when the trimmed first value is an integer it is taken
  off the list.  The result is the depth and the remaining rows.
\<close>

definition splitPlyDepth :: "('f, 'd) golib \<Rightarrow> string list \<Rightarrow> int \<times> string list" where
  "splitPlyDepth lib analysisStrs =
     (if length analysisStrs > 0 then
        (case Atoi (TrimSpace lib (hd analysisStrs)) of
           (depth, True) \<Rightarrow> (depth, tl analysisStrs)
         | (depth, False) \<Rightarrow> (0, analysisStrs))
      else (0, analysisStrs))"

definition parseMoveAnalysis ::
  "('f, 'd) golib \<Rightarrow> SGFNode \<Rightarrow> ('f, 'd) MoveRecord \<Rightarrow> ('f, 'd) MoveRecord" where
  "parseMoveAnalysis lib node mr =
     (let analysisStrs = propertyValues node ''A''
      in if length analysisStrs = 0 then mr
         else
           (let r = splitPlyDepth lib analysisStrs
            in mr\<lparr>Analysis :=
                    Some \<lparr>MoveAnalysis.Moves = parseMoveAnalysis_rows lib (fst r) (snd r) [],
                          SelectedMove = 0\<rparr>\<rparr>))"

subsection \<open>Cube analysis, luck and skill\<close>

definition cubeBestAction ::
  "('f, 'd) golib \<Rightarrow> MoveType \<Rightarrow> ('f, 'd) CubeAnalysis \<Rightarrow> ('f, 'd) CubeAnalysis" where
  "cubeBestAction lib mrType ca =
     (if mrType = MoveTypeDouble then
        (if greater lib (CubefulDoubleTake ca) (CubefulNoDouble ca)
         then ca\<lparr>BestAction := ''double''\<rparr> else ca\<lparr>BestAction := ''no_double''\<rparr>)
      else if mrType = MoveTypeTake \<or> mrType = MoveTypeDrop then
        (if greater lib (CubefulDoubleTake ca) (CubefulDoublePass ca)
         then ca\<lparr>BestAction := ''take''\<rparr> else ca\<lparr>BestAction := ''pass''\<rparr>)
      else ca)"

text \<open>The body of \<open>parseCubeAnalysis\<close> for a first row of at least 13 tokens.\<close>

definition cubeAnalysisOfParts ::
  "('f, 'd) golib \<Rightarrow> MoveType \<Rightarrow> string list \<Rightarrow> ('f, 'd) CubeAnalysis" where
  "cubeAnalysisOfParts lib mrType parts =
     (let ca = zeroCubeAnalysis lib;
          ca = ca\<lparr>CubeAnalysis.Player1WinRate := ParseFloat32 lib (parts ! 7)\<rparr>;
          ca = ca\<lparr>CubeAnalysis.Player2WinRate := ParseFloat32 lib (parts ! 8)\<rparr>;
          ca = ca\<lparr>CubeAnalysis.Player2GammonRate := ParseFloat32 lib (parts ! 9)\<rparr>;
          ca = ca\<lparr>CubeAnalysis.Player1GammonRate := ParseFloat32 lib (parts ! 10)\<rparr>;
          ca = ca\<lparr>CubeAnalysis.Player1BackgammonRate := ParseFloat32 lib (parts ! 11)\<rparr>;
          ca = ca\<lparr>CubelessEquity := ParseFloat64 lib (parts ! 12)\<rparr>;
          ca = (if length parts \<ge> 16
                then ca\<lparr>CubefulNoDouble := ParseFloat64 lib (parts ! 13)\<rparr> else ca);
          ca = ca\<lparr>CubeAnalysis.AnalysisDepth := fst (Atoi (parts ! 2))\<rparr>
      in cubeBestAction lib mrType ca)"

definition parseCubeAnalysis ::
  "('f, 'd) golib \<Rightarrow> SGFNode \<Rightarrow> ('f, 'd) MoveRecord \<Rightarrow> ('f, 'd) MoveRecord" where
  "parseCubeAnalysis lib node mr =
     (let daStrs = propertyValues node ''DA''
      in if length daStrs = 0 then mr
         else
           (let parts = Fields lib (daStrs ! 0)
            in if length parts < 13 then mr
               else mr\<lparr>CubeAnalysis := Some (cubeAnalysisOfParts lib (Type mr) parts)\<rparr>))"

definition parseLuck ::
  "('f, 'd) golib \<Rightarrow> SGFNode \<Rightarrow> ('f, 'd) MoveRecord \<Rightarrow> ('f, 'd) MoveRecord" where
  "parseLuck lib node mr =
     (let luStr = getProperty node ''LU''
      in if luStr = [] then mr
         else
           (let parts = Fields lib luStr
            in if length parts < 2 then mr
               else mr\<lparr>Luck := Some \<lparr>LuckRating.Rating = parts ! 0,
                                      Value = ParseFloat64 lib (parts ! 1)\<rparr>\<rparr>))"

definition parseSkill ::
  "('f, 'd) golib \<Rightarrow> SGFNode \<Rightarrow> ('f, 'd) MoveRecord \<Rightarrow> ('f, 'd) MoveRecord" where
  "parseSkill lib node mr =
     (let skStr = getProperty node ''SK''
      in if skStr = [] then mr
         else
           (let parts = Fields lib skStr
            in if length parts < 2 then mr
               else mr\<lparr>Skill := Some \<lparr>SkillRating.Rating = parts ! 0,
                                       Error = ParseFloat64 lib (parts ! 1)\<rparr>\<rparr>))"

subsection \<open>Nodes (\<open>processMove\<close>, \<open>processSetBoard\<close>, \<open>processNode\<close>)\<close>

text \<open>The dice of a move string or of a \<open>DI\<close> value: \<open>Atoi\<close> of each of its first two bytes.\<close>

definition diceOf :: "string \<Rightarrow> int list \<Rightarrow> int list" where
  "diceOf str dice =
     dice[0 := fst (Atoi (byteString (str ! 0))), 1 := fst (Atoi (byteString (str ! 1)))]"

text \<open>
  \<open>processMove\<close> in its three stages: the record from the move string, the analysis,
  luck and skill payloads in the order of the source, and the append.
\<close>

definition moveOfString :: "string \<Rightarrow> ('f, 'd) MoveRecord \<Rightarrow> ('f, 'd) MoveRecord" where
  "moveOfString moveStr mr =
     (if moveStr = ''double'' then mr\<lparr>Type := MoveTypeDouble\<rparr>
      else if moveStr = ''take'' then mr\<lparr>Type := MoveTypeTake\<rparr>
      else if moveStr = ''drop'' \<or> moveStr = ''pass'' then mr\<lparr>Type := MoveTypeDrop\<rparr>
      else
        (let mr = mr\<lparr>Type := MoveTypeNormal\<rparr>
         in if length moveStr \<ge> 2 then
              (let mr = mr\<lparr>Dice := diceOf moveStr (Dice mr)\<rparr>
               in if length moveStr > 2 then parseEncodedMove (drop 2 moveStr) mr else mr)
            else mr))"

definition attachPayloads ::
  "('f, 'd) golib \<Rightarrow> SGFNode \<Rightarrow> ('f, 'd) MoveRecord \<Rightarrow> ('f, 'd) MoveRecord" where
  "attachPayloads lib node mr =
     (let mr = (if hasProperty node ''A'' then parseMoveAnalysis lib node mr else mr);
          mr = (if hasProperty node ''DA'' then parseCubeAnalysis lib node mr else mr);
          mr = (if hasProperty node ''LU'' then parseLuck lib node mr else mr)
      in if hasProperty node ''SK'' then parseSkill lib node mr else mr)"

definition processMove ::
  "('f, 'd) golib \<Rightarrow> SGFNode \<Rightarrow> ('f, 'd) Game \<Rightarrow> int \<Rightarrow> string \<Rightarrow> string \<Rightarrow>
     error + ('f, 'd) Game" where
  "processMove lib node game player moveStr comment =
     (let mr = zeroMoveRecord\<lparr>Player := player, MoveRecord.Comment := comment\<rparr>;
          mr = moveOfString moveStr mr;
          mr = attachPayloads lib node mr
      in Inr (game\<lparr>Game.Moves := Game.Moves game @ [mr]\<rparr>))"

fun placeCheckers :: "string list \<Rightarrow> int list \<Rightarrow> int list" where
  "placeCheckers [] row = row"
| "placeCheckers (point # rest) row =
     (if length point = 1 then
        (let pt = decodePoint (point ! 0)
         in if pt \<ge> 0 \<and> pt < 25 then placeCheckers rest (row[nat pt := row ! nat pt + 1])
            else placeCheckers rest row)
      else placeCheckers rest row)"

definition processSetBoard ::
  "SGFNode \<Rightarrow> ('f, 'd) Game \<Rightarrow> string \<Rightarrow> error + ('f, 'd) Game" where
  "processSetBoard node game comment =
     (let board0 = placeCheckers (propertyValues node ''AW'') (replicate 25 0);
          board1 = placeCheckers (propertyValues node ''AB'') (replicate 25 0);
          pl = getProperty node ''PL'';
          onRoll = (if pl \<noteq> [] then (if pl = ''W'' \<or> pl = ''w'' then 0 else 1) else 0);
          mr = zeroMoveRecord\<lparr>Type := MoveTypeSetBoard,
                 Position := Some \<lparr>Board = [board0, board1], OnRoll = onRoll\<rparr>,
                 MoveRecord.Comment := comment\<rparr>
      in Inr (game\<lparr>Game.Moves := Game.Moves game @ [mr]\<rparr>))"

text \<open>
  In the \<open>DI\<close> branch of \<open>processNode\<close> the record is appended before \<open>parseLuck\<close> is
  called on the local copy, so the luck rating never reaches the game; the model leaves
  that call out.
\<close>

definition cubeOwnerOf :: "string \<Rightarrow> int" where
  "cubeOwnerOf cp =
     (if cp = ''c'' then - 1 else if cp = ''w'' then 0 else if cp = ''b'' then 1 else 0)"

definition processNode ::
  "('f, 'd) golib \<Rightarrow> SGFNode \<Rightarrow> ('f, 'd) Game \<Rightarrow> error + ('f, 'd) Game" where
  "processNode lib node game =
     (let comment = getProperty node ''C''
      in if getProperty node ''B'' \<noteq> [] then
           processMove lib node game 1 (getProperty node ''B'') comment
         else if getProperty node ''W'' \<noteq> [] then
           processMove lib node game 0 (getProperty node ''W'') comment
         else if hasProperty node ''AE'' \<or> hasProperty node ''AW'' \<or> hasProperty node ''AB'' then
           processSetBoard node game comment
         else
           (let game =
                  (if hasProperty node ''CV'' then
                     game\<lparr>Game.Moves := Game.Moves game @
                       [zeroMoveRecord\<lparr>Type := MoveTypeSetCube,
                          CubeValue := getPropertyInt node ''CV'',
                          MoveRecord.Comment := comment\<rparr>]\<rparr>
                   else game);
                cp = getProperty node ''CP'';
                game =
                  (if cp \<noteq> [] then
                     game\<lparr>Game.Moves := Game.Moves game @
                       [zeroMoveRecord\<lparr>Type := MoveTypeSetCubePos,
                          MoveRecord.Comment := comment,
                          CubeOwner := cubeOwnerOf cp\<rparr>]\<rparr>
                   else game);
                di = getProperty node ''DI'';
                game =
                  (if di \<noteq> [] \<and> length di \<ge> 2 then
                     game\<lparr>Game.Moves := Game.Moves game @
                       [zeroMoveRecord\<lparr>Type := MoveTypeSetDice,
                          MoveRecord.Comment := comment,
                          Dice := diceOf di [0, 0]\<rparr>]\<rparr>
                   else game)
            in Inr game))"

subsection \<open>Metadata of the root node\<close>

text \<open>
  Byte-level functions of Go's \<open>strings\<close> package, as the converter calls them:
  \<open>Split\<close> with a non-empty separator, \<open>Trim\<close> and \<open>TrimLeft\<close> with an ASCII cutset,
  \<open>TrimSuffix\<close> and \<open>HasSuffix\<close>.
\<close>

function Split_loop :: "string \<Rightarrow> string \<Rightarrow> string \<Rightarrow> string list" where
  "Split_loop sep cur s =
     (if s = [] then [cur]
      else if sep \<noteq> [] \<and> take (length sep) s = sep then
        cur # Split_loop sep [] (drop (length sep) s)
      else Split_loop sep (cur @ [hd s]) (tl s))"
  by pat_completeness auto
termination
  by (relation "measure (\<lambda>(sep, cur, s). length s)") auto

declare Split_loop.simps [simp del]

definition Split :: "string \<Rightarrow> string \<Rightarrow> string list" where
  "Split s sep = Split_loop sep [] s"

definition Trim :: "string \<Rightarrow> string \<Rightarrow> string" where
  "Trim s cutset =
     rev (dropWhile (\<lambda>c. c \<in> set cutset) (rev (dropWhile (\<lambda>c. c \<in> set cutset) s)))"

definition TrimLeft :: "string \<Rightarrow> string \<Rightarrow> string" where
  "TrimLeft s cutset = dropWhile (\<lambda>c. c \<in> set cutset) s"

definition HasSuffix :: "string \<Rightarrow> string \<Rightarrow> bool" where
  "HasSuffix s suffix \<longleftrightarrow>
     length s \<ge> length suffix \<and> drop (length s - length suffix) s = suffix"

definition TrimSuffix :: "string \<Rightarrow> string \<Rightarrow> string" where
  "TrimSuffix s suffix =
     (if HasSuffix s suffix then take (length s - length suffix) s else s)"

definition zeroGame :: "('f, 'd) Game" where
  "zeroGame =
     \<lparr>GameNumber = 0, Score = [0, 0], Variation = [], Crawford = False,
      CrawfordGame = False, Jacoby = False, CubeEnabled = False, AutoDoubles = 0,
      Winner = 0, Points = 0, Resigned = False, Game.Moves = [], GameComment = []\<rparr>"

definition zeroMatch :: "('f, 'd) Match" where
  "zeroMatch =
     \<lparr>Metadata =
        \<lparr>Player1 = [], Player2 = [], Rating1 = [], Rating2 = [], MatchLength = 0,
         Event = [], Round = [], Place = [], Date = [], Annotator = [],
         MatchMetadata.Comment = [], Application = []\<rparr>,
      Games = []\<rparr>"

text \<open>One turn of the loop of \<open>parseMatchInfo\<close>; \<open>SplitN(part, ":", 2)\<close> is the cut at the first colon.\<close>

definition matchInfoPart ::
  "string \<Rightarrow> ('f, 'd) Match \<times> ('f, 'd) Game \<Rightarrow> ('f, 'd) Match \<times> ('f, 'd) Game" where
  "matchInfoPart part0 mg =
     (let part = Trim part0 ''[]''
      in if CHR '':'' \<notin> set part then mg
         else
           (let key = takeWhile (\<lambda>c. c \<noteq> CHR '':'') part;
                v = Atoi (tl (dropWhile (\<lambda>c. c \<noteq> CHR '':'') part));
                match = fst mg;
                game = snd mg
            in if \<not> snd v then mg
               else if key = ''length'' then
                 (match\<lparr>Metadata := (Metadata match)\<lparr>MatchLength := fst v\<rparr>\<rparr>, game)
               else if key = ''game'' then (match, game\<lparr>GameNumber := fst v\<rparr>)
               else if key = ''ws'' then (match, game\<lparr>Score := (Score game)[0 := fst v]\<rparr>)
               else if key = ''bs'' then (match, game\<lparr>Score := (Score game)[1 := fst v]\<rparr>)
               else mg))"

definition parseMatchInfo ::
  "string \<Rightarrow> ('f, 'd) Match \<Rightarrow> ('f, 'd) Game \<Rightarrow> ('f, 'd) Match \<times> ('f, 'd) Game" where
  "parseMatchInfo mi match game = fold matchInfoPart (Split mi ''][''  ) (match, game)"

definition rulesToken :: "('f, 'd) golib \<Rightarrow> string \<Rightarrow> ('f, 'd) Game \<Rightarrow> ('f, 'd) Game" where
  "rulesToken lib rule0 game =
     (let rule = TrimSpace lib rule0
      in if rule = ''Crawford'' then game\<lparr>Crawford := True\<rparr>
         else if rule = ''CrawfordGame'' then game\<lparr>CrawfordGame := True\<rparr>
         else if rule = ''Jacoby'' then game\<lparr>Jacoby := True\<rparr>
         else if rule = ''NoCube'' then game\<lparr>CubeEnabled := False\<rparr>
         else if rule = ''Nackgammon'' then game\<lparr>Variation := ''Nackgammon''\<rparr>
         else if rule = ''Hypergammon1'' then game\<lparr>Variation := ''Hypergammon1''\<rparr>
         else if rule = ''Hypergammon2'' then game\<lparr>Variation := ''Hypergammon2''\<rparr>
         else if rule = ''Hypergammon3'' then game\<lparr>Variation := ''Hypergammon3''\<rparr>
         else game)"

definition parseRules :: "('f, 'd) golib \<Rightarrow> string \<Rightarrow> ('f, 'd) Game \<Rightarrow> ('f, 'd) Game" where
  "parseRules lib ru game =
     (let game = fold (rulesToken lib) (Split ru '':'') game
      in if Variation game = [] then game\<lparr>Variation := ''Standard''\<rparr> else game)"

definition parseResult :: "string \<Rightarrow> ('f, 'd) Game \<Rightarrow> ('f, 'd) Game" where
  "parseResult re game =
     (if length re < 3 then game
      else
        (let game = (if re ! 0 = CHR ''W'' then game\<lparr>Winner := 0\<rparr>
                     else if re ! 0 = CHR ''B'' then game\<lparr>Winner := 1\<rparr>
                     else game);
             pointsStr = TrimSuffix (TrimLeft (drop 1 re) ''+'') ''R'';
             v = Atoi pointsStr;
             game = (if snd v then game\<lparr>Points := fst v\<rparr> else game)
         in if HasSuffix re ''R'' then game\<lparr>Resigned := True\<rparr> else game))"

text \<open>A scalar tag of the root node: the field is written only for a non-empty value.\<close>

definition setIfPresent ::
  "SGFNode \<Rightarrow> string \<Rightarrow> (string \<Rightarrow> MatchMetadata \<Rightarrow> MatchMetadata) \<Rightarrow>
     MatchMetadata \<Rightarrow> MatchMetadata" where
  "setIfPresent node name upd md =
     (let v = getProperty node name in if v \<noteq> [] then upd v md else md)"

definition extractMetadata ::
  "('f, 'd) golib \<Rightarrow> SGFNode \<Rightarrow> ('f, 'd) Match \<Rightarrow> ('f, 'd) Game \<Rightarrow>
     error + ('f, 'd) Match \<times> ('f, 'd) Game" where
  "extractMetadata lib node match game =
     (let md = Metadata match;
          md = setIfPresent node ''AP'' (\<lambda>v m. m\<lparr>Application := v\<rparr>) md;
          md = setIfPresent node ''PW'' (\<lambda>v m. m\<lparr>Player1 := v\<rparr>) md;
          md = setIfPresent node ''PB'' (\<lambda>v m. m\<lparr>Player2 := v\<rparr>) md;
          md = setIfPresent node ''WR'' (\<lambda>v m. m\<lparr>Rating1 := v\<rparr>) md;
          md = setIfPresent node ''BR'' (\<lambda>v m. m\<lparr>Rating2 := v\<rparr>) md;
          md = setIfPresent node ''EV'' (\<lambda>v m. m\<lparr>Event := v\<rparr>) md;
          md = setIfPresent node ''RO'' (\<lambda>v m. m\<lparr>Round := v\<rparr>) md;
          md = setIfPresent node ''PC'' (\<lambda>v m. m\<lparr>Place := v\<rparr>) md;
          md = setIfPresent node ''DT'' (\<lambda>v m. m\<lparr>Date := v\<rparr>) md;
          md = setIfPresent node ''AN'' (\<lambda>v m. m\<lparr>Annotator := v\<rparr>) md;
          md = setIfPresent node ''GC'' (\<lambda>v m. m\<lparr>MatchMetadata.Comment := v\<rparr>) md;
          match = match\<lparr>Metadata := md\<rparr>;
          mg = (if getProperty node ''MI'' \<noteq> []
                then parseMatchInfo (getProperty node ''MI'') match game else (match, game));
          match = fst mg;
          game = snd mg;
          game = (if getProperty node ''RU'' \<noteq> []
                  then parseRules lib (getProperty node ''RU'') game else game);
          game = (if getProperty node ''CV'' \<noteq> []
                  then game\<lparr>AutoDoubles := getPropertyInt node ''CV''\<rparr> else game);
          game = (if getProperty node ''RE'' \<noteq> []
                  then parseResult (getProperty node ''RE'') game else game)
      in Inr (match, game))"

subsection \<open>Games and the match (\<open>convertGame\<close>, \<open>convertNodesToMatch\<close>, \<open>ParseSGF\<close>)\<close>

text \<open>The walk of \<open>convertGame\<close> along the first children, starting at \<open>current\<close>.\<close>

fun convertGame_walk ::
  "('f, 'd) golib \<Rightarrow> SGFNode \<Rightarrow> ('f, 'd) Game \<Rightarrow> error + ('f, 'd) Game" where
  "convertGame_walk lib (SGFNode props []) game = processNode lib (SGFNode props []) game"
| "convertGame_walk lib (SGFNode props (c # cs)) game =
     (case processNode lib (SGFNode props (c # cs)) game of
        Inl e \<Rightarrow> Inl e
      | Inr game' \<Rightarrow> convertGame_walk lib c game')"

definition convertGame ::
  "('f, 'd) golib \<Rightarrow> SGFNode \<Rightarrow> ('f, 'd) Match \<Rightarrow> error + ('f, 'd) Game \<times> ('f, 'd) Match" where
  "convertGame lib root match =
     (case extractMetadata lib root match (zeroGame\<lparr>CubeEnabled := True\<rparr>) of
        Inl e \<Rightarrow> Inl e
      | Inr mg \<Rightarrow>
          (case convertGame_walk lib root (snd mg) of
             Inl e \<Rightarrow> Inl e
           | Inr game \<Rightarrow> Inr (game, fst mg)))"

fun convertNodesToMatch_loop ::
  "('f, 'd) golib \<Rightarrow> SGFNode list \<Rightarrow> ('f, 'd) Match \<Rightarrow> error + ('f, 'd) Match" where
  "convertNodesToMatch_loop lib [] match = Inr match"
| "convertNodesToMatch_loop lib (gameNode # rest) match =
     (case convertGame lib gameNode match of
        Inl e \<Rightarrow> Inl e
      | Inr gm \<Rightarrow>
          convertNodesToMatch_loop lib rest ((snd gm)\<lparr>Games := Games (snd gm) @ [fst gm]\<rparr>))"

definition convertNodesToMatch ::
  "('f, 'd) golib \<Rightarrow> SGFNode list \<Rightarrow> error + ('f, 'd) Match" where
  "convertNodesToMatch lib nodes =
     (if length nodes = 0 then Inl NoGamesFound
      else convertNodesToMatch_loop lib nodes zeroMatch)"

definition ParseSGF :: "('f, 'd) golib \<Rightarrow> (error + rune) list \<Rightarrow> error + ('f, 'd) Match" where
  "ParseSGF lib r =
     (case fst (parseGameTree (NewSGFParser r)) of
        Inl e \<Rightarrow> Inl (ParseFailed e)
      | Inr nodes \<Rightarrow>
          if length nodes = 0 then Inl EmptySGF
          else
            (case convertNodesToMatch lib nodes of
               Inl e \<Rightarrow> Inl (ConvertFailed e)
             | Inr match \<Rightarrow> Inr match))"

subsection \<open>A library instance for concrete runs\<close>

text \<open>
  An instance of the library record for ASCII input.  It keeps every number as the text
  it was read from, so that a concrete run shows which token reached which field.
\<close>

definition isSpaceAscii :: "char \<Rightarrow> bool" where
  "isSpaceAscii c \<longleftrightarrow>
     c \<in> set [CHR 0x09, CHR 0x0A, CHR 0x0B, CHR 0x0C, CHR 0x0D, CHR '' '']"

fun fieldsAscii :: "string \<Rightarrow> string \<Rightarrow> string list" where
  "fieldsAscii cur [] = (if cur = [] then [] else [cur])"
| "fieldsAscii cur (c # cs) =
     (if isSpaceAscii c then
        (if cur = [] then fieldsAscii [] cs else cur # fieldsAscii [] cs)
      else fieldsAscii (cur @ [c]) cs)"

definition textLib :: "(string, string) golib" where
  "textLib =
     \<lparr>Fields = fieldsAscii [],
      TrimSpace = (\<lambda>s. rev (dropWhile isSpaceAscii (rev (dropWhile isSpaceAscii s)))),
      ParseFloat32 = (\<lambda>s. s), ParseFloat64 = (\<lambda>s. s),
      oneMinus = (\<lambda>x. ''1-'' @ x), zero32 = ''0'', zero64 = ''0'',
      greater = (\<lambda>a b. False)\<rparr>"

text \<open>The reader over a text: one rune per character, no read error.\<close>

definition runes :: "string \<Rightarrow> (error + rune) list" where
  "runes s = map (\<lambda>c. Inr (rune_of c)) s"

subsection \<open>Decoding a rendered move\<close>

text \<open>
  The repository has no decoder for the output of \<open>FormatMove\<close>.  The round trip of a
  rendered move is therefore formed from what it has: \<open>renderedCodes\<close> keeps the point
  codes of a rendering (it drops the blanks and slashes that \<open>FormatMove\<close> puts between
  them), and \<open>reencode\<close> decodes them with \<open>parseEncodedMove\<close> into a fresh record.
\<close>

definition renderedCodes :: "string \<Rightarrow> string" where
  "renderedCodes s = filter (\<lambda>c. c \<noteq> CHR '' '' \<and> c \<noteq> CHR ''/'') s"

definition reencode :: "string \<Rightarrow> int list" where
  "reencode s =
     MoveRecord.Move (parseEncodedMove (renderedCodes s) (zeroMoveRecord :: (unit, unit) MoveRecord))"

subsection \<open>Reading a conversion result\<close>

text \<open>The kind and the dice of every move record of a result; nothing for an error.\<close>

definition producedMoves :: "error + ('f, 'd) Game \<Rightarrow> (MoveType \<times> int list) list" where
  "producedMoves r =
     (case r of Inl e \<Rightarrow> [] | Inr game \<Rightarrow> map (\<lambda>mr. (Type mr, Dice mr)) (Game.Moves game))"

text \<open>A move record whose two dice are decimal digits.\<close>

definition diceInRange :: "('f, 'd) MoveRecord \<Rightarrow> bool" where
  "diceInRange mr \<longleftrightarrow> length (Dice mr) = 2 \<and> (\<forall>d \<in> set (Dice mr). 0 \<le> d \<and> d \<le> 9)"

subsection \<open>The properties of a node in encounter order\<close>

text \<open>
  \<open>parseNode_sequence\<close> makes the calls of the loop of \<open>parseNode\<close> and lists the
  properties that \<open>parseProperty\<close> returns, in the order of the input, where the loop
  stores them in the map.  \<open>nodeProperties\<close> is that list for a node that starts at its
  semicolon.
\<close>

function parseNode_sequence :: "SGFParser \<Rightarrow> (string \<times> string list) list" where
  "parseNode_sequence p =
     (case peekChar (skipWhitespace p) of
        (Inl e, p') \<Rightarrow> []
      | (Inr ch, p') \<Rightarrow>
          if isLetter ch then
            (case parseProperty p' of
               (Inl e, p'') \<Rightarrow> []
             | (Inr nv, p'') \<Rightarrow> nv # parseNode_sequence p'')
          else [])"
  by pat_completeness auto
termination
proof (relation "measure pending")
  show "wf (measure pending)" by simp
next
  fix p x1 p' ch x1a p'' and nv :: "string \<times> string list"
  assume pk: "(x1, p') = peekChar (skipWhitespace p)" and x1: "x1 = Inr ch"
    and lt: "isLetter ch" and pp: "(x1a, p'') = parseProperty p'"
  from pk x1 have pk': "peekChar (skipWhitespace p) = (Inr ch, p')" by simp
  from peekChar_hasChar[OF pk'] lt have "hasChar p'" "isLetter (char p')" by simp_all
  then have "pending (snd (parseProperty p')) < pending p'" by (rule parseProperty_pending_less)
  then have "pending p'' < pending p'" using pp[symmetric] by simp
  moreover have "pending p' \<le> pending p" using peek_skip_pending_le[of p] pk' by simp
  ultimately show "(p'', p) \<in> measure pending" by simp
qed

declare parseNode_sequence.simps [simp del]

definition nodeProperties :: "SGFParser \<Rightarrow> (string \<times> string list) list" where
  "nodeProperties p = parseNode_sequence (snd (readChar p))"

subsection \<open>Syntax errors of the input\<close>







subsection \<open>Reading a match\<close>

text \<open>The kinds of the move records of every game of a match; \<open>None\<close> for an error.\<close>

definition matchMoves :: "error + ('f, 'd) Match \<Rightarrow> MoveType list list option" where
  "matchMoves r =
     (case r of
        Inl e \<Rightarrow> None
      | Inr match \<Rightarrow> Some (map (\<lambda>game. map Type (Game.Moves game)) (Games match)))"

section \<open>Properties\<close>

subsection \<open>Character stream\<close>

text \<open>
  C6: a character obtained from \<open>readChar\<close>, pushed back with \<open>unreadChar\<close>, is the one
  \<open>peekChar\<close> returns, and the peek leaves the parser state as it was.
\<close>

theorem unread_then_peek:
  "readChar p = (Inr c, p') \<Longrightarrow>
     peekChar (unreadChar p') = (Inr c, unreadChar p') \<and>
     readChar (snd (peekChar (unreadChar p'))) = (Inr c, (unreadChar p')\<lparr>hasChar := False\<rparr>)"
  by (auto simp: readChar_def peekChar_def unreadChar_def split: list.splits sum.splits if_splits)

theorem unread_then_peek_witness:
  "readChar (NewSGFParser [Inr 97, Inr 98]) = (Inr 97, \<lparr>reader = [Inr 98], char = 97, hasChar = False\<rparr>) \<and>
   peekChar (unreadChar \<lparr>reader = [Inr 98], char = 97, hasChar = False\<rparr>) =
     (Inr 97, unreadChar \<lparr>reader = [Inr 98], char = 97, hasChar = False\<rparr>)"
proof -
  have h: "readChar (NewSGFParser [Inr 97, Inr 98]) =
             (Inr 97, \<lparr>reader = [Inr 98], char = 97, hasChar = False\<rparr>)"
    by (simp add: readChar_def NewSGFParser_def)
  from unread_then_peek[OF h] h show ?thesis by simp
qed

subsection \<open>Move analysis rows\<close>

lemma parseMoveAnalysis_rows_eq:
  "parseMoveAnalysis_rows lib ply rows moves =
     moves @ map (\<lambda>row. moveOptionOfParts lib ply (Fields lib row))
               (filter (\<lambda>row. 10 \<le> length (Fields lib row)) rows)"
  by (induction rows arbitrary: moves) (auto simp: Let_def)

lemma moveOptionOfParts_fields:
  "MoveOption.Player1WinRate (moveOptionOfParts lib ply parts) = ParseFloat32 lib (parts ! 4)"
  "MoveOption.Player1GammonRate (moveOptionOfParts lib ply parts) = ParseFloat32 lib (parts ! 5)"
  "MoveOption.Player1BackgammonRate (moveOptionOfParts lib ply parts) = ParseFloat32 lib (parts ! 6)"
  "MoveOption.Player2GammonRate (moveOptionOfParts lib ply parts) = ParseFloat32 lib (parts ! 7)"
  "MoveOption.Player2BackgammonRate (moveOptionOfParts lib ply parts) = ParseFloat32 lib (parts ! 8)"
  "MoveOption.Equity (moveOptionOfParts lib ply parts) = ParseFloat64 lib (parts ! 9)"
  "MoveOption.Player2WinRate (moveOptionOfParts lib ply parts) =
     oneMinus lib (ParseFloat32 lib (parts ! 4))"
  "MoveOption.AnalysisDepth (moveOptionOfParts lib ply parts) = ply"
  by (simp_all add: moveOptionOfParts_def Let_def parseEncodedMoveOption_def)

text \<open>
  C1: let \<open>rows\<close> be the values of the \<open>A\<close> property after the optional leading ply
  depth, restricted to those with at least 10 tokens.  The analysis holds one option per
  such row, in order, and in the option of a row the tokens 4 to 8 are the own win, own
  gammon, own backgammon, opponent gammon and opponent backgammon rates, token 9 is the
  equity, and the opponent win rate is 1 minus the own win rate that was stored.
\<close>

theorem move_row_fields:
  assumes "Properties node ''A'' = Some strs" and "strs \<noteq> []"
    and "rows = filter (\<lambda>row. 10 \<le> length (Fields lib row)) (snd (splitPlyDepth lib strs))"
  shows "\<exists>ma. Analysis (parseMoveAnalysis lib node mr) = Some ma \<and>
           length (MoveAnalysis.Moves ma) = length rows \<and>
           (\<forall>i < length rows.
              MoveOption.Player1WinRate (MoveAnalysis.Moves ma ! i) =
                ParseFloat32 lib (Fields lib (rows ! i) ! 4) \<and>
              MoveOption.Player1GammonRate (MoveAnalysis.Moves ma ! i) =
                ParseFloat32 lib (Fields lib (rows ! i) ! 5) \<and>
              MoveOption.Player1BackgammonRate (MoveAnalysis.Moves ma ! i) =
                ParseFloat32 lib (Fields lib (rows ! i) ! 6) \<and>
              MoveOption.Player2GammonRate (MoveAnalysis.Moves ma ! i) =
                ParseFloat32 lib (Fields lib (rows ! i) ! 7) \<and>
              MoveOption.Player2BackgammonRate (MoveAnalysis.Moves ma ! i) =
                ParseFloat32 lib (Fields lib (rows ! i) ! 8) \<and>
              MoveOption.Equity (MoveAnalysis.Moves ma ! i) =
                ParseFloat64 lib (Fields lib (rows ! i) ! 9) \<and>
              MoveOption.Player2WinRate (MoveAnalysis.Moves ma ! i) =
                oneMinus lib (MoveOption.Player1WinRate (MoveAnalysis.Moves ma ! i)))"
  using assms
  by (simp add: parseMoveAnalysis_def propertyValues_def Let_def parseMoveAnalysis_rows_eq
        moveOptionOfParts_fields)

theorem move_row_fields_witness:
  "\<exists>ma. Analysis (parseMoveAnalysis textLib
            (SGFNode [''A'' \<mapsto> [''0'', ''ab'',
               ''lpab E ver 3 0.496365 0.140890 0.006297 0.135264 0.005951 -0.004723'']] [])
            (zeroMoveRecord :: (string, string) MoveRecord)) = Some ma \<and>
         length (MoveAnalysis.Moves ma) = 1 \<and>
         MoveOption.Player1WinRate (MoveAnalysis.Moves ma ! 0) = ''0.496365'' \<and>
         MoveOption.Player1GammonRate (MoveAnalysis.Moves ma ! 0) = ''0.140890'' \<and>
         MoveOption.Player1BackgammonRate (MoveAnalysis.Moves ma ! 0) = ''0.006297'' \<and>
         MoveOption.Player2GammonRate (MoveAnalysis.Moves ma ! 0) = ''0.135264'' \<and>
         MoveOption.Player2BackgammonRate (MoveAnalysis.Moves ma ! 0) = ''0.005951'' \<and>
         MoveOption.Equity (MoveAnalysis.Moves ma ! 0) = ''-0.004723'' \<and>
         MoveOption.Player2WinRate (MoveAnalysis.Moves ma ! 0) = ''1-0.496365''"
proof -
  let ?row = "''lpab E ver 3 0.496365 0.140890 0.006297 0.135264 0.005951 -0.004723''"
  let ?strs = "[''0'', ''ab'', ?row]"
  let ?node = "SGFNode [''A'' \<mapsto> ?strs] []"
  have fields: "Fields textLib ?row =
      [''lpab'', ''E'', ''ver'', ''3'', ''0.496365'', ''0.140890'', ''0.006297'', ''0.135264'',
       ''0.005951'', ''-0.004723'']"
    by (simp add: textLib_def isSpaceAscii_def)
  have short: "Fields textLib ''ab'' = [''ab'']"
    by (simp add: textLib_def isSpaceAscii_def)
  have ply: "splitPlyDepth textLib ?strs = (0, [''ab'', ?row])"
    by (simp add: splitPlyDepth_def textLib_def isSpaceAscii_def Atoi_def isDigit_def)
  have h1: "Properties ?node ''A'' = Some ?strs" by simp
  have h2: "?strs \<noteq> []" by simp
  have h3: "[?row] = filter (\<lambda>row. 10 \<le> length (Fields textLib row)) (snd (splitPlyDepth textLib ?strs))"
    unfolding ply using fields short by simp
  have sel: "ParseFloat32 textLib = (\<lambda>s. s)" "ParseFloat64 textLib = (\<lambda>s. s)"
      "oneMinus textLib = (\<lambda>x. ''1-'' @ x)"
    by (simp_all add: textLib_def)
  from move_row_fields[OF h1 h2 h3, of zeroMoveRecord]
  obtain ma where a: "Analysis (parseMoveAnalysis textLib ?node (zeroMoveRecord :: (string, string) MoveRecord)) = Some ma"
    and l: "length (MoveAnalysis.Moves ma) = length [?row]"
    and f: "\<forall>i < length [?row].
              MoveOption.Player1WinRate (MoveAnalysis.Moves ma ! i) =
                ParseFloat32 textLib (Fields textLib ([?row] ! i) ! 4) \<and>
              MoveOption.Player1GammonRate (MoveAnalysis.Moves ma ! i) =
                ParseFloat32 textLib (Fields textLib ([?row] ! i) ! 5) \<and>
              MoveOption.Player1BackgammonRate (MoveAnalysis.Moves ma ! i) =
                ParseFloat32 textLib (Fields textLib ([?row] ! i) ! 6) \<and>
              MoveOption.Player2GammonRate (MoveAnalysis.Moves ma ! i) =
                ParseFloat32 textLib (Fields textLib ([?row] ! i) ! 7) \<and>
              MoveOption.Player2BackgammonRate (MoveAnalysis.Moves ma ! i) =
                ParseFloat32 textLib (Fields textLib ([?row] ! i) ! 8) \<and>
              MoveOption.Equity (MoveAnalysis.Moves ma ! i) =
                ParseFloat64 textLib (Fields textLib ([?row] ! i) ! 9) \<and>
              MoveOption.Player2WinRate (MoveAnalysis.Moves ma ! i) =
                oneMinus textLib (MoveOption.Player1WinRate (MoveAnalysis.Moves ma ! i))"
    by blast
  from f have f0: "MoveOption.Player1WinRate (MoveAnalysis.Moves ma ! 0) = ''0.496365''"
      "MoveOption.Player1GammonRate (MoveAnalysis.Moves ma ! 0) = ''0.140890''"
      "MoveOption.Player1BackgammonRate (MoveAnalysis.Moves ma ! 0) = ''0.006297''"
      "MoveOption.Player2GammonRate (MoveAnalysis.Moves ma ! 0) = ''0.135264''"
      "MoveOption.Player2BackgammonRate (MoveAnalysis.Moves ma ! 0) = ''0.005951''"
      "MoveOption.Equity (MoveAnalysis.Moves ma ! 0) = ''-0.004723''"
      "MoveOption.Player2WinRate (MoveAnalysis.Moves ma ! 0) = ''1-0.496365''"
    by (simp_all add: fields sel)
  show ?thesis using a l f0 by (intro exI[of _ ma]) simp
qed

subsection \<open>Skipped rows and cube analysis\<close>

text \<open>
  C5: a row with fewer than 10 tokens adds no option: the rows before and after it give
  the options they give without it.  Processing a move has no error result.
\<close>

theorem short_row_skipped:
  assumes "length (Fields lib row) < 10"
  shows "parseMoveAnalysis_rows lib ply (before @ row # after) moves =
           parseMoveAnalysis_rows lib ply (before @ after) moves \<and>
         (\<exists>game'. processMove lib node game player moveStr comment = Inr game')"
  using assms by (simp add: parseMoveAnalysis_rows_eq processMove_def Let_def)

theorem short_row_skipped_witness:
  "length (Fields textLib ''lpab E ver 3'') < 10 \<and>
   parseMoveAnalysis_rows textLib 2 ([''a b c d e f g h i j''] @ ''lpab E ver 3'' # [''k l m n o p q r s t'']) [] =
     parseMoveAnalysis_rows textLib 2 ([''a b c d e f g h i j''] @ [''k l m n o p q r s t'']) [] \<and>
   (\<exists>game'. processMove textLib (SGFNode [''W'' \<mapsto> [''52lpab''], ''A'' \<mapsto> [''lpab E ver 3'']] [])
                zeroGame 0 ''52lpab'' [] = Inr game')"
proof -
  have h: "length (Fields textLib ''lpab E ver 3'') < 10"
    by (simp add: textLib_def isSpaceAscii_def)
  from short_row_skipped[OF h] h show ?thesis by blast
qed

text \<open>
  C2: for a first \<open>DA\<close> value of at least 13 tokens the cube analysis is built from that
  value alone; tokens 7 to 11 are the own win, opponent win, opponent gammon, own gammon
  and own backgammon rates, token 12 is the cubeless equity, token 13 is the cubeful
  no-double equity when there are at least 16 tokens, and the double/take and double/pass
  equities are zero.
\<close>

theorem cube_row_fields:
  assumes "Properties node ''DA'' = Some (first # others)"
    and "parts = Fields lib first" and "13 \<le> length parts"
  shows "\<exists>ca. CubeAnalysis (parseCubeAnalysis lib node mr) = Some ca \<and>
           ca = cubeAnalysisOfParts lib (Type mr) (Fields lib first) \<and>
           CubeAnalysis.Player1WinRate ca = ParseFloat32 lib (parts ! 7) \<and>
           CubeAnalysis.Player2WinRate ca = ParseFloat32 lib (parts ! 8) \<and>
           CubeAnalysis.Player2GammonRate ca = ParseFloat32 lib (parts ! 9) \<and>
           CubeAnalysis.Player1GammonRate ca = ParseFloat32 lib (parts ! 10) \<and>
           CubeAnalysis.Player1BackgammonRate ca = ParseFloat32 lib (parts ! 11) \<and>
           CubelessEquity ca = ParseFloat64 lib (parts ! 12) \<and>
           CubefulNoDouble ca =
             (if 16 \<le> length parts then ParseFloat64 lib (parts ! 13) else zero64 lib) \<and>
           CubefulDoubleTake ca = zero64 lib \<and>
           CubefulDoublePass ca = zero64 lib"
  using assms
  by (simp add: parseCubeAnalysis_def propertyValues_def Let_def cubeAnalysisOfParts_def
        cubeBestAction_def zeroCubeAnalysis_def)


theorem cube_row_fields_witness:
  "\<exists>ca. CubeAnalysis (parseCubeAnalysis textLib
            (SGFNode [''DA'' \<mapsto>
               [''E ver 3 2C 1 0.000000 1 0.503635 0.135264 0.005951 0.140890 0.006297 0.001137 0.25 0.5 0.75'',
                ''ignored'']] [])
            (zeroMoveRecord :: (string, string) MoveRecord)) = Some ca \<and>
         CubeAnalysis.Player1WinRate ca = ''0.503635'' \<and>
         CubeAnalysis.Player2WinRate ca = ''0.135264'' \<and>
         CubeAnalysis.Player2GammonRate ca = ''0.005951'' \<and>
         CubeAnalysis.Player1GammonRate ca = ''0.140890'' \<and>
         CubeAnalysis.Player1BackgammonRate ca = ''0.006297'' \<and>
         CubelessEquity ca = ''0.001137'' \<and>
         CubefulNoDouble ca = ''0.25'' \<and>
         CubefulDoubleTake ca = ''0'' \<and>
         CubefulDoublePass ca = ''0''"
proof -
  let ?first = "''E ver 3 2C 1 0.000000 1 0.503635 0.135264 0.005951 0.140890 0.006297 0.001137 0.25 0.5 0.75''"
  let ?parts = "[''E'', ''ver'', ''3'', ''2C'', ''1'', ''0.000000'', ''1'', ''0.503635'', ''0.135264'',
       ''0.005951'', ''0.140890'', ''0.006297'', ''0.001137'', ''0.25'', ''0.5'', ''0.75'']"
  let ?node = "SGFNode [''DA'' \<mapsto> [?first, ''ignored'']] []"
  have h1: "Properties ?node ''DA'' = Some (?first # [''ignored''])" by simp
  have h2: "?parts = Fields textLib ?first"
    by (simp add: textLib_def isSpaceAscii_def)
  have h3: "13 \<le> length ?parts" by simp
  have sel: "ParseFloat32 textLib = (\<lambda>s. s)" "ParseFloat64 textLib = (\<lambda>s. s)"
      "zero64 textLib = ''0''"
    by (simp_all add: textLib_def)
  from cube_row_fields[OF h1 h2 h3, of zeroMoveRecord]
  obtain ca where a: "CubeAnalysis (parseCubeAnalysis textLib ?node (zeroMoveRecord :: (string, string) MoveRecord)) = Some ca"
    and f: "CubeAnalysis.Player1WinRate ca = ParseFloat32 textLib (?parts ! 7)"
      "CubeAnalysis.Player2WinRate ca = ParseFloat32 textLib (?parts ! 8)"
      "CubeAnalysis.Player2GammonRate ca = ParseFloat32 textLib (?parts ! 9)"
      "CubeAnalysis.Player1GammonRate ca = ParseFloat32 textLib (?parts ! 10)"
      "CubeAnalysis.Player1BackgammonRate ca = ParseFloat32 textLib (?parts ! 11)"
      "CubelessEquity ca = ParseFloat64 textLib (?parts ! 12)"
      "CubefulNoDouble ca =
         (if 16 \<le> length ?parts then ParseFloat64 textLib (?parts ! 13) else zero64 textLib)"
      "CubefulDoubleTake ca = zero64 textLib"
      "CubefulDoublePass ca = zero64 textLib"
    by blast
  show ?thesis using a f by (intro exI[of _ ca]) (simp add: sel)
qed

subsection \<open>Rendering and decoding moves\<close>

lemma rune_of_int_small:
  "- 2147483648 \<le> x \<Longrightarrow> x < 2147483648 \<Longrightarrow> rune_of_int x = x"
  unfolding rune_of_int_def by (simp add: sint_sbintrunc' signed_take_bit_int_eq_self)

lemma pointToString_letter:
  "0 \<le> p \<Longrightarrow> p \<le> 23 \<Longrightarrow> pointToString p = [char_of (97 + p)]"
  by (simp add: pointToString_def rune_of_int_small utf8_def)

lemma of_char_letter:
  "0 \<le> (p::int) \<Longrightarrow> p \<le> 23 \<Longrightarrow> (of_char (char_of (97 + p)) :: int) = 97 + p"
  by (simp add: of_char_of)

lemma of_char_letter_nat:
  assumes "0 \<le> (p::int)" "p \<le> 23"
  shows "(of_char (char_of (97 + p)) :: nat) = nat (97 + p)"
proof -
  have "int (of_char (char_of (97 + p)) :: nat) = (of_char (char_of (97 + p)) :: int)"
    by (simp add: of_char_def)
  then show ?thesis using of_char_letter[OF assms] by simp
qed

lemma decodePoint_letter:
  "0 \<le> (p::int) \<Longrightarrow> p \<le> 23 \<Longrightarrow> decodePoint (char_of (97 + p)) = p"
  by (auto simp: decodePoint_def of_char_letter_nat)

lemma letter_not_separator:
  assumes "0 \<le> (p::int)" "p \<le> 23"
  shows "char_of (97 + p) \<noteq> CHR '' ''" "char_of (97 + p) \<noteq> CHR ''/''"
proof -
  show "char_of (97 + p) \<noteq> CHR '' ''"
  proof
    assume "char_of (97 + p) = CHR '' ''"
    then have "(of_char (char_of (97 + p)) :: int) = of_char (CHR '' '')" by simp
    then show False using of_char_letter[OF assms] assms by simp
  qed
  show "char_of (97 + p) \<noteq> CHR ''/''"
  proof
    assume "char_of (97 + p) = CHR ''/''"
    then have "(of_char (char_of (97 + p)) :: int) = of_char (CHR ''/'')" by simp
    then show False using of_char_letter[OF assms] assms by simp
  qed
qed

lemma replicate_8: "replicate 8 x = [x, x, x, x, x, x, x, x]"
  by (simp add: eval_nat_numeral)

lemmas roundtrip_eval = replicate_8 reencode_def parseEncodedMove_def zeroMoveRecord_def Let_def
  FormatMove_def FormatMove_loop.simps pointToString_letter renderedCodes_def
  letter_not_separator decodePairs.simps terminateMove_def decodePoint_letter

lemma roundtrip_1:
  assumes "0 \<le> a" "a \<le> 23" "0 \<le> b" "b \<le> 23"
  shows "reencode (FormatMove [a, b, - 1, d, e, f, g, h] 0) = [a, b, - 1, 0, 0, 0, 0, 0]"
  using assms by (simp add: roundtrip_eval)

lemma roundtrip_2:
  assumes "0 \<le> a" "a \<le> 23" "0 \<le> b" "b \<le> 23" "0 \<le> c" "c \<le> 23" "0 \<le> d" "d \<le> 23"
  shows "reencode (FormatMove [a, b, c, d, - 1, f, g, h] 0) = [a, b, c, d, - 1, 0, 0, 0]"
  using assms by (simp add: roundtrip_eval)

lemma roundtrip_3:
  assumes "0 \<le> a" "a \<le> 23" "0 \<le> b" "b \<le> 23" "0 \<le> c" "c \<le> 23" "0 \<le> d" "d \<le> 23"
    "0 \<le> e" "e \<le> 23" "0 \<le> f" "f \<le> 23"
  shows "reencode (FormatMove [a, b, c, d, e, f, - 1, h] 0) = [a, b, c, d, e, f, - 1, 0]"
  using assms by (simp add: roundtrip_eval)

lemma roundtrip_4:
  assumes "0 \<le> a" "a \<le> 23" "0 \<le> b" "b \<le> 23" "0 \<le> c" "c \<le> 23" "0 \<le> d" "d \<le> 23"
    "0 \<le> e" "e \<le> 23" "0 \<le> f" "f \<le> 23" "0 \<le> g" "g \<le> 23" "0 \<le> h" "h \<le> 23"
  shows "reencode (FormatMove [a, b, c, d, e, f, g, h] 0) = [a, b, c, d, e, f, g, h]"
  using assms by (simp add: roundtrip_eval)

lemma length8E:
  assumes "length (m :: 'a list) = 8"
  obtains a b c d e f g h where "m = [a, b, c, d, e, f, g, h]"
  using assms by (auto simp: length_Suc_conv eval_nat_numeral)

text \<open>
  C4, amended: a move of side 0 with one to four pairs, all on the board points 0 to 23,
  and terminated by \<open>-1\<close> when it has fewer than four pairs, is rendered as letters
  only, and decoding those letters gives the pairs back, then the terminator, then 0 in
  the slots that are left.
\<close>

theorem render_decode_roundtrip:
  assumes len: "length m = 8" and k: "1 \<le> k" "k \<le> 4"
    and pts: "\<forall>i < 2 * k. 0 \<le> m ! i \<and> m ! i \<le> 23"
    and tm: "k < 4 \<longrightarrow> m ! (2 * k) = - 1"
  shows "reencode (FormatMove m 0) =
           take (2 * k) m @ (if k < 4 then - 1 # replicate (7 - 2 * k) 0 else [])"
proof -
  from len obtain a b c d e f g h where m: "m = [a, b, c, d, e, f, g, h]" by (rule length8E)
  from k consider "k = 1" | "k = 2" | "k = 3" | "k = 4" by linarith
  then show ?thesis
  proof cases
    case 1
    have "0 \<le> a \<and> a \<le> 23" "0 \<le> b \<and> b \<le> 23"
      using pts[rule_format, of 0] pts[rule_format, of 1] 1 m by simp_all
    moreover have "c = - 1" using tm 1 m by simp
    ultimately show ?thesis using 1 m roundtrip_1[of a b d e f g h] by (simp add: eval_nat_numeral)
  next
    case 2
    have "0 \<le> a \<and> a \<le> 23" "0 \<le> b \<and> b \<le> 23" "0 \<le> c \<and> c \<le> 23" "0 \<le> d \<and> d \<le> 23"
      using pts[rule_format, of 0] pts[rule_format, of 1] pts[rule_format, of 2]
        pts[rule_format, of 3] 2 m by simp_all
    moreover have "e = - 1" using tm 2 m by simp
    ultimately show ?thesis using 2 m roundtrip_2[of a b c d f g h] by (simp add: eval_nat_numeral)
  next
    case 3
    have "0 \<le> a \<and> a \<le> 23" "0 \<le> b \<and> b \<le> 23" "0 \<le> c \<and> c \<le> 23" "0 \<le> d \<and> d \<le> 23"
      "0 \<le> e \<and> e \<le> 23" "0 \<le> f \<and> f \<le> 23"
      using pts[rule_format, of 0] pts[rule_format, of 1] pts[rule_format, of 2]
        pts[rule_format, of 3] pts[rule_format, of 4] pts[rule_format, of 5] 3 m by simp_all
    moreover have "g = - 1" using tm 3 m by simp
    ultimately show ?thesis using 3 m roundtrip_3[of a b c d e f h] by (simp add: eval_nat_numeral)
  next
    case 4
    have "0 \<le> a \<and> a \<le> 23" "0 \<le> b \<and> b \<le> 23" "0 \<le> c \<and> c \<le> 23" "0 \<le> d \<and> d \<le> 23"
      "0 \<le> e \<and> e \<le> 23" "0 \<le> f \<and> f \<le> 23" "0 \<le> g \<and> g \<le> 23" "0 \<le> h \<and> h \<le> 23"
      using pts[rule_format, of 0] pts[rule_format, of 1] pts[rule_format, of 2]
        pts[rule_format, of 3] pts[rule_format, of 4] pts[rule_format, of 5]
        pts[rule_format, of 6] pts[rule_format, of 7] 4 m by simp_all
    then show ?thesis using 4 m roundtrip_4[of a b c d e f g h] by simp
  qed
qed


theorem render_decode_roundtrip_witness:
  "reencode (FormatMove [11, 15, 0, 1, - 1, 9, 9, 9] 0) = [11, 15, 0, 1, - 1, 0, 0, 0]"
proof -
  let ?m = "[11, 15, 0, 1, - 1, 9, 9, 9] :: int list"
  have len: "length ?m = 8" by simp
  have k: "(1::nat) \<le> 2" "(2::nat) \<le> 4" by simp_all
  have pts: "\<forall>i < 2 * (2::nat). 0 \<le> ?m ! i \<and> ?m ! i \<le> 23"
    by (auto simp: less_Suc_eq eval_nat_numeral)
  have tm: "(2::nat) < 4 \<longrightarrow> ?m ! (2 * 2) = - 1" by simp
  from render_decode_roundtrip[OF len k pts tm] show ?thesis by (simp add: eval_nat_numeral)
qed

text \<open>
  C4, as stated, fails: the words for bar and off are not point codes, side 1 is rendered
  mirrored, an array without a pair is rendered as a phrase, and the decoder leaves 0,
  not \<open>-1\<close>, after the terminator.
\<close>

theorem render_decode_roundtrip_counterexample:
  "reencode (FormatMove [24, 0, - 1, 0, 0, 0, 0, 0] 0) \<noteq> [24, 0, - 1, 0, 0, 0, 0, 0] \<and>
   reencode (FormatMove [5, 3, - 1, 0, 0, 0, 0, 0] 1) \<noteq> [5, 3, - 1, 0, 0, 0, 0, 0] \<and>
   reencode (FormatMove [- 1, 0, 0, 0, 0, 0, 0, 0] 0) \<noteq> [- 1, 0, 0, 0, 0, 0, 0, 0] \<and>
   reencode (FormatMove [5, 3, - 1, - 1, - 1, - 1, - 1, - 1] 0) \<noteq> [5, 3, - 1, - 1, - 1, - 1, - 1, - 1]"
  by (simp add: reencode_def parseEncodedMove_def zeroMoveRecord_def Let_def replicate_8
        FormatMove_def FormatMove_loop.simps pointToString_def renderedCodes_def utf8_def
        rune_of_int_def int64_def char_of_def decodePairs.simps terminateMove_def
        decodePoint_def)

text \<open>
  C3: for side 1 the mirror is applied to the bar and off codes as well, so a move from
  the bar (24) or to off (25) is not rendered with the words: 23 - 24 and 23 - 25 are the
  characters just before the letter a.  For side 0 the words appear.
\<close>

theorem bar_and_off_rendering:
  "MoveRecord.MoveString
     (parseEncodedMove ''yu'' ((zeroMoveRecord :: (unit, unit) MoveRecord)\<lparr>Player := 1\<rparr>)) =
     [CHR 0x60, CHR ''/'', CHR ''d''] \<and>
   MoveRecord.MoveString
     (parseEncodedMove ''fz'' ((zeroMoveRecord :: (unit, unit) MoveRecord)\<lparr>Player := 1\<rparr>)) =
     ''s/_'' \<and>
   FormatMove [24, 20, - 1, 0, 0, 0, 0, 0] 1 = [CHR 0x60, CHR ''/'', CHR ''d''] \<and>
   FormatMove [24, 20, - 1, 0, 0, 0, 0, 0] 0 = ''bar/u'' \<and>
   FormatMove [5, 25, - 1, 0, 0, 0, 0, 0] 0 = ''f/off''"
  by (simp add: parseEncodedMove_def zeroMoveRecord_def Let_def replicate_8
        FormatMove_def FormatMove_loop.simps pointToString_def utf8_def
        rune_of_int_def int64_def char_of_def decodePairs.simps terminateMove_def
        decodePoint_def)

subsection \<open>Dice\<close>

lemma Atoi_single:
  "fst (Atoi [c]) = (if isDigit c then int (of_char c) - 48 else 0)"
  by (auto simp: Atoi_def Let_def isDigit_def)

lemma Atoi_not_number:
  "c \<noteq> CHR ''-'' \<Longrightarrow> c \<noteq> CHR ''+'' \<Longrightarrow> \<not> isDigit c \<Longrightarrow> fst (Atoi (c # cs)) = 0"
  by (simp add: Atoi_def Let_def)

lemma of_char_nat_less: "(of_char (c::char) :: nat) < 256"
  by (cases c) simp

lemma of_char_int_range: "0 \<le> (of_char (c::char) :: int) \<and> (of_char c :: int) < 256"
  by (cases c) simp

lemma byteString_ascii:
  assumes "(of_char b :: nat) < 128"
  shows "byteString b = [b]"
  using assms by (simp add: byteString_def utf8_def)

lemma byteString_high:
  assumes "\<not> (of_char b :: nat) < 128"
  shows "byteString b =
           [char_of (0xC0 + int (of_char b) div 0x40), char_of (0x80 + int (of_char b) mod 0x40)]"
proof -
  define n where "n = (of_char b :: nat)"
  have "n < 256" unfolding n_def by (rule of_char_nat_less)
  moreover have "\<not> n < 128" using assms by (simp add: n_def)
  ultimately show ?thesis unfolding byteString_def utf8_def n_def[symmetric] by auto
qed

lemma Atoi_byteString_range:
  "0 \<le> fst (Atoi (byteString b)) \<and> fst (Atoi (byteString b)) \<le> 9"
proof (cases "(of_char b :: nat) < 128")
  case True
  then show ?thesis by (auto simp: byteString_ascii Atoi_single isDigit_def)
next
  case False
  let ?n = "int (of_char b)"
  let ?c = "char_of (0xC0 + ?n div 0x40) :: char"
  have n: "128 \<le> ?n" "?n < 256" using False of_char_nat_less[of b] by simp_all
  then have d: "?n div 0x40 = 2 \<or> ?n div 0x40 = 3" by linarith
  have v: "(of_char ?c :: int) = 0xC0 + ?n div 0x40" using d by (auto simp: of_char_of)
  have vn: "int (of_char ?c :: nat) = 0xC0 + ?n div 0x40"
    using v by (simp add: of_char_def)
  have "?c \<noteq> CHR ''-''" "?c \<noteq> CHR ''+''"
    using d by (auto simp: char_of_def)
  moreover have "\<not> isDigit ?c" using vn d by (auto simp: isDigit_def)
  ultimately show ?thesis using False by (simp add: byteString_high Atoi_not_number)
qed


lemma diceOf_range:
  "\<exists>d0 d1. diceOf str [a, b] = [d0, d1] \<and> 0 \<le> d0 \<and> d0 \<le> 9 \<and> 0 \<le> d1 \<and> d1 \<le> 9"
  using Atoi_byteString_range[of "str ! 0"] Atoi_byteString_range[of "str ! 1"]
  by (simp add: diceOf_def)

lemma Dice_payloads [simp]:
  "Dice (parseEncodedMove enc mr) = Dice mr"
  "Dice (parseMoveAnalysis lib node mr) = Dice mr"
  "Dice (parseCubeAnalysis lib node mr) = Dice mr"
  "Dice (parseLuck lib node mr) = Dice mr"
  "Dice (parseSkill lib node mr) = Dice mr"
  by (simp_all add: parseEncodedMove_def parseMoveAnalysis_def parseCubeAnalysis_def
        parseLuck_def parseSkill_def Let_def)

lemma diceInRange_zero: "Dice mr = [0, 0] \<Longrightarrow> diceInRange mr"
  by (simp add: diceInRange_def)

lemma diceInRange_diceOf: "Dice mr = diceOf str [0, 0] \<Longrightarrow> diceInRange mr"
  using diceOf_range[of str 0 0] by (auto simp: diceInRange_def)

lemma diceInRange_cases:
  "Dice mr = [0, 0] \<or> Dice mr = diceOf str [0, 0] \<Longrightarrow> diceInRange mr"
  using diceInRange_zero diceInRange_diceOf by blast

lemma Dice_attachPayloads: "Dice (attachPayloads lib node mr) = Dice mr"
  by (simp add: attachPayloads_def Let_def)

lemma Dice_moveOfString:
  "Dice mr = [0, 0] \<Longrightarrow>
     Dice (moveOfString moveStr mr) = [0, 0] \<or> Dice (moveOfString moveStr mr) = diceOf moveStr [0, 0]"
  by (simp add: moveOfString_def Let_def)

lemma processMove_dice:
  "\<exists>mr. processMove lib node game player moveStr comment =
           Inr (game\<lparr>Game.Moves := Game.Moves game @ [mr]\<rparr>) \<and> diceInRange mr"
proof -
  let ?base = "(zeroMoveRecord :: ('a, 'b) MoveRecord)\<lparr>Player := player, MoveRecord.Comment := comment\<rparr>"
  let ?mr = "attachPayloads lib node (moveOfString moveStr ?base)"
  have "Dice ?base = [0, 0]" by (simp add: zeroMoveRecord_def)
  from Dice_moveOfString[OF this, of moveStr]
  have "Dice ?mr = [0, 0] \<or> Dice ?mr = diceOf moveStr [0, 0]"
    by (simp only: Dice_attachPayloads)
  then have "diceInRange ?mr" by (rule diceInRange_cases)
  moreover have "processMove lib node game player moveStr comment =
      Inr (game\<lparr>Game.Moves := Game.Moves game @ [?mr]\<rparr>)"
    by (simp add: processMove_def)
  ultimately show ?thesis by blast
qed

lemma processSetBoard_dice:
  "\<exists>mr. processSetBoard node game comment =
           Inr (game\<lparr>Game.Moves := Game.Moves game @ [mr]\<rparr>) \<and> diceInRange mr"
  unfolding processSetBoard_def Let_def
  by (rule exI, rule conjI, rule refl) (simp add: diceInRange_def zeroMoveRecord_def)

text \<open>
  C9, amended: every record that \<open>processNode\<close> appends has two dice, each a decimal
  digit from 0 to 9.
\<close>

theorem dice_are_digits:
  assumes "processNode lib node game = Inr game'"
  shows "\<exists>new. Game.Moves game' = Game.Moves game @ new \<and>
           (\<forall>mr \<in> set new. length (Dice mr) = 2 \<and> (\<forall>d \<in> set (Dice mr). 0 \<le> d \<and> d \<le> 9))"
proof -
  let ?comment = "getProperty node ''C''"
  consider (b) "getProperty node ''B'' \<noteq> []"
    | (w) "getProperty node ''B'' = []" "getProperty node ''W'' \<noteq> []"
    | (board) "getProperty node ''B'' = []" "getProperty node ''W'' = []"
        "hasProperty node ''AE'' \<or> hasProperty node ''AW'' \<or> hasProperty node ''AB''"
    | (other) "getProperty node ''B'' = []" "getProperty node ''W'' = []"
        "\<not> (hasProperty node ''AE'' \<or> hasProperty node ''AW'' \<or> hasProperty node ''AB'')"
    by blast
  then show ?thesis
  proof cases
    case b
    obtain mr where "processMove lib node game 1 (getProperty node ''B'') ?comment =
        Inr (game\<lparr>Game.Moves := Game.Moves game @ [mr]\<rparr>)" and "diceInRange mr"
      using processMove_dice by blast
    with assms b have "Game.Moves game' = Game.Moves game @ [mr]"
      by (auto simp: processNode_def Let_def)
    with \<open>diceInRange mr\<close> show ?thesis by (intro exI[of _ "[mr]"]) (simp add: diceInRange_def)
  next
    case w
    obtain mr where "processMove lib node game 0 (getProperty node ''W'') ?comment =
        Inr (game\<lparr>Game.Moves := Game.Moves game @ [mr]\<rparr>)" and "diceInRange mr"
      using processMove_dice by blast
    with assms w have "Game.Moves game' = Game.Moves game @ [mr]"
      by (auto simp: processNode_def Let_def)
    with \<open>diceInRange mr\<close> show ?thesis by (intro exI[of _ "[mr]"]) (simp add: diceInRange_def)
  next
    case board
    obtain mr where "processSetBoard node game ?comment =
        Inr (game\<lparr>Game.Moves := Game.Moves game @ [mr]\<rparr>)" and "diceInRange mr"
      using processSetBoard_dice by blast
    with assms board have "Game.Moves game' = Game.Moves game @ [mr]"
      by (auto simp: processNode_def Let_def)
    with \<open>diceInRange mr\<close> show ?thesis by (intro exI[of _ "[mr]"]) (simp add: diceInRange_def)
  next
    case other
    let ?cv = "if hasProperty node ''CV'' then
        [(zeroMoveRecord :: ('a, 'b) MoveRecord)\<lparr>Type := MoveTypeSetCube,
           CubeValue := getPropertyInt node ''CV'', MoveRecord.Comment := ?comment\<rparr>] else []"
    let ?cp = "if getProperty node ''CP'' \<noteq> [] then
        [(zeroMoveRecord :: ('a, 'b) MoveRecord)\<lparr>Type := MoveTypeSetCubePos,
           MoveRecord.Comment := ?comment, CubeOwner := cubeOwnerOf (getProperty node ''CP'')\<rparr>] else []"
    let ?di = "if getProperty node ''DI'' \<noteq> [] \<and> length (getProperty node ''DI'') \<ge> 2 then
        [(zeroMoveRecord :: ('a, 'b) MoveRecord)\<lparr>Type := MoveTypeSetDice,
           MoveRecord.Comment := ?comment, Dice := diceOf (getProperty node ''DI'') [0, 0]\<rparr>] else []"
    have "Game.Moves game' = Game.Moves game @ (?cv @ ?cp @ ?di)"
      using assms other by (auto simp: processNode_def Let_def)
    moreover have "\<forall>mr \<in> set (?cv @ ?cp @ ?di). diceInRange mr"
      by (auto intro: diceInRange_zero diceInRange_diceOf simp: zeroMoveRecord_def)
    ultimately show ?thesis unfolding diceInRange_def by blast
  qed
qed


lemmas node_eval = processNode_def processMove_def moveOfString_def attachPayloads_def
  getProperty_def hasProperty_def getPropertyInt_def diceOf_def byteString_def utf8_def
  Atoi_def isDigit_def Let_def zeroMoveRecord_def zeroGame_def producedMoves_def
  parseEncodedMove_def char_of_def

theorem dice_are_digits_witness:
  "\<exists>g new. processNode textLib (SGFNode [''W'' \<mapsto> [''52lpab'']] [])
              (zeroGame :: (string, string) Game) = Inr g \<and>
            Game.Moves g = Game.Moves (zeroGame :: (string, string) Game) @ new \<and>
            list_all (\<lambda>mr. length (Dice mr) = 2 \<and> list_all (\<lambda>d. 0 \<le> d \<and> d \<le> 9) (Dice mr)) new"
proof -
  let ?node = "SGFNode [''W'' \<mapsto> [''52lpab'']] []"
  obtain g where h: "processNode textLib ?node (zeroGame :: (string, string) Game) = Inr g"
    by (simp add: processNode_def processMove_def getProperty_def Let_def)
  from dice_are_digits[OF h] h show ?thesis unfolding list_all_iff by blast
qed

text \<open>
  C9, as stated, fails: the dice are whatever digits the input holds, and 0 for a byte
  that is no digit.
\<close>

theorem dice_are_digits_counterexample:
  "producedMoves (processNode textLib (SGFNode [''W'' \<mapsto> [''79lpab'']] [])
     (zeroGame :: (string, string) Game)) = [(MoveTypeNormal, [7, 9])] \<and>
   producedMoves (processNode textLib (SGFNode [''DI'' \<mapsto> [''0x'']] [])
     (zeroGame :: (string, string) Game)) = [(MoveTypeSetDice, [0, 0])]"
  by (simp add: node_eval)

subsection \<open>Repeated properties of a node\<close>

lemma parseNode_loop_sequence:
  "parseNode_loop props p = (Inr node, q) \<Longrightarrow>
     Properties node = props ++ map_of (rev (parseNode_sequence p))"
proof (induction props p rule: parseNode_loop.induct)
  case (1 props p)
  obtain r p' where pk: "peekChar (skipWhitespace p) = (r, p')"
    by (cases "peekChar (skipWhitespace p)")
  show ?case
  proof (cases r)
    case (Inl e)
    with pk "1.prems" show ?thesis by (subst (asm) parseNode_loop.simps) simp
  next
    case (Inr ch)
    obtain r2 p'' where pp: "parseProperty p' = (r2, p'')" by (cases "parseProperty p'")
    have eq: "parseNode_loop props p =
        (if isLetter ch then
           (case r2 of Inl e \<Rightarrow> (Inl (PropertyError e), p'')
            | Inr nv \<Rightarrow> parseNode_loop (props(fst nv \<mapsto> snd nv)) p'')
         else (Inr (SGFNode props []), p'))"
      using pk Inr pp by (subst parseNode_loop.simps) simp
    have seq: "parseNode_sequence p =
        (if isLetter ch then
           (case r2 of Inl e \<Rightarrow> [] | Inr nv \<Rightarrow> nv # parseNode_sequence p'')
         else [])"
      using pk Inr pp by (subst parseNode_sequence.simps) simp
    show ?thesis
    proof (cases "isLetter ch")
      case False
      with "1.prems" eq seq show ?thesis by auto
    next
      case True
      with "1.prems" eq obtain nv where r2: "r2 = Inr nv"
        and rec: "parseNode_loop (props(fst nv \<mapsto> snd nv)) p'' = (Inr node, q)"
        by (cases r2) auto
      from "1.IH"[OF pk[symmetric] Inr True pp[symmetric] r2 rec]
      have "Properties node = props(fst nv \<mapsto> snd nv) ++ map_of (rev (parseNode_sequence p''))" .
      also have "\<dots> = props ++ map_of (rev (nv # parseNode_sequence p''))"
        by (cases nv) (simp add: map_add_upd_left)
      finally show ?thesis using seq True r2 by simp
    qed
  qed
qed


text \<open>
  C10: when a property name occurs again in a node, the map of the node holds the value
  list of its last occurrence, whatever was stored for the name before.
\<close>

theorem later_property_replaces:
  assumes "parseNode p = (Inr node, q)"
    and "nodeProperties p = before @ (name, later) # after"
    and "name \<notin> fst ` set after"
  shows "Properties node name = Some later"
proof -
  obtain r p1 where rd: "readChar p = (r, p1)" by (cases "readChar p")
  with assms(1) have loop: "parseNode_loop Map.empty p1 = (Inr node, q)"
    by (cases r) (auto simp: parseNode_def split: if_splits)
  have seq: "parseNode_sequence p1 = before @ (name, later) # after"
    using assms(2) rd by (simp add: nodeProperties_def)
  have "Properties node = Map.empty ++ map_of (rev (parseNode_sequence p1))"
    using loop by (rule parseNode_loop_sequence)
  then have "Properties node name = map_of (rev after @ (name, later) # rev before) name"
    by (simp add: seq)
  also have "\<dots> = Some later"
    using assms(3) by (simp add: map_of_append map_add_def map_of_eq_None_iff[THEN iffD2] split: option.splits)
  finally show ?thesis .
qed

lemmas parser_eval = runes_def NewSGFParser_def readChar_def peekChar_def unreadChar_def
  skipWhitespace.simps isBlank_def isLetter_def rune_of_def utf8_def char_of_def
  parsePropertyValue_loop.simps parsePropertyValue_def parseProperty_name.simps
  parseProperty_values.simps parseProperty_def parseNode_loop.simps parseNode_def
  parseGame_skip.simps parseGame_loop.simps parseGame_def emptyNode_def
  parseGameTree_loop.simps parseGameTree_def

theorem later_property_replaces_witness:
  "parseNode (NewSGFParser (runes '';AB[a]AB[b]C[x])'')) =
     (Inr (SGFNode [''AB'' \<mapsto> [''b''], ''C'' \<mapsto> [''x'']] []),
      \<lparr>reader = [], char = 41, hasChar = True\<rparr>) \<and>
   nodeProperties (NewSGFParser (runes '';AB[a]AB[b]C[x])'')) =
     [(''AB'', [''a''])] @ (''AB'', [''b'']) # [(''C'', [''x''])] \<and>
   Properties (SGFNode [''AB'' \<mapsto> [''b''], ''C'' \<mapsto> [''x'']] []) ''AB'' = Some [''b'']"
proof -
  let ?p = "NewSGFParser (runes '';AB[a]AB[b]C[x])'')"
  let ?node = "SGFNode [''AB'' \<mapsto> [''b''], ''C'' \<mapsto> [''x'']] []"
  have h1: "parseNode ?p = (Inr ?node, \<lparr>reader = [], char = 41, hasChar = True\<rparr>)"
    by (simp add: parser_eval)
  have h2: "nodeProperties ?p = [(''AB'', [''a''])] @ (''AB'', [''b'']) # [(''C'', [''x''])]"
    by (simp add: parser_eval nodeProperties_def parseNode_sequence.simps)
  have h3: "''AB'' \<notin> fst ` set [(''C'', [''x''])]" by simp
  from later_property_replaces[OF h1 h2 h3] h1 h2 show ?thesis by blast
qed

subsection \<open>Errors and variations in the tree parser\<close>
















text \<open>
  C8: the skip of a variation counts parentheses without regard to bracketed values.  A
  closing parenthesis inside a value of the variation ends the skip early: what follows
  in the variation is then read as part of the main line (here the node \<open>B[double]\<close>
  reaches the game), or it stops the parse with an error.  Without the variation the same
  tree gives a game without moves.
\<close>

theorem variation_not_discarded:
  "fst (parseGameTree (NewSGFParser (runes ''(;GM[6](;C[);B[double]))''))) =
     Inr [SGFNode [''GM'' \<mapsto> [''6'']] [SGFNode [''B'' \<mapsto> [''double'']] []]] \<and>
   matchMoves (ParseSGF textLib (runes ''(;GM[6](;C[);B[double]))'')) = Some [[MoveTypeDouble]] \<and>
   matchMoves (ParseSGF textLib (runes ''(;GM[6])'')) = Some [[]] \<and>
   fst (parseGameTree (NewSGFParser (runes ''(;GM[6](;C[ok :)]))''))) =
     Inl (UnexpectedChar (rune_of CHR '']''))"
proof -
  have p1: "fst (parseGameTree (NewSGFParser (runes ''(;GM[6](;C[);B[double]))''))) =
      Inr [SGFNode [''GM'' \<mapsto> [''6'']] [SGFNode [''B'' \<mapsto> [''double'']] []]]"
    by (simp add: parser_eval)
  have p2: "fst (parseGameTree (NewSGFParser (runes ''(;GM[6])''))) =
      Inr [SGFNode [''GM'' \<mapsto> [''6'']] []]"
    by (simp add: parser_eval)
  have p3: "fst (parseGameTree (NewSGFParser (runes ''(;GM[6](;C[ok :)]))''))) =
      Inl (UnexpectedChar (rune_of CHR '']''))"
    by (simp add: parser_eval)
  have m1: "matchMoves (ParseSGF textLib (runes ''(;GM[6](;C[);B[double]))'')) =
      Some [[MoveTypeDouble]]"
    by (simp add: ParseSGF_def p1 matchMoves_def convertNodesToMatch_def convertGame_def
          extractMetadata_def setIfPresent_def getProperty_def hasProperty_def
          processNode_def processMove_def moveOfString_def attachPayloads_def Let_def
          zeroMatch_def zeroGame_def zeroMoveRecord_def getPropertyInt_def)
  have m2: "matchMoves (ParseSGF textLib (runes ''(;GM[6])'')) = Some [[]]"
    by (simp add: ParseSGF_def p2 matchMoves_def convertNodesToMatch_def convertGame_def
          extractMetadata_def setIfPresent_def getProperty_def hasProperty_def
          processNode_def Let_def zeroMatch_def zeroGame_def getPropertyInt_def)
  from p1 m1 m2 p3 show ?thesis by blast
qed

end
